theory Spec2Isabelle
  imports Complex_Main "HOL-Library.Sublist"
begin

section \<open>Analysis signals\<close>

text \<open>
  \<^verbatim>\<open>analysis_data\<close> is a dictionary of dictionaries that the scorer reads with
  \<^verbatim>\<open>.get(key, default)\<close>. Every key may be absent, so every field is an option and the
  readers below supply the defaults of the source. Counts are Python integers, the
  complexity score and the coverage ratio are numbers; they are read as exact reals and
  the decimal thresholds of the source as the decimals they denote.
\<close>

record complexity_info =
  complexity_score :: "real option"

record test_gap_info =
  test_coverage_ratio :: "real option"

record todos_info =
  todos :: "int option"

record analysis_data =
  filepath :: "string option"
  prompt :: "string option"
  duplication :: "int option"
  complexity :: "complexity_info option"
  test_gap :: "test_gap_info option"
  todos_dead_code :: "todos_info option"

text \<open>\<^verbatim>\<open>analysis_data.get("duplication", 0)\<close>\<close>

definition get_duplication :: "analysis_data \<Rightarrow> int" where
  "get_duplication a = (case duplication a of None \<Rightarrow> 0 | Some d \<Rightarrow> d)"

text \<open>\<^verbatim>\<open>analysis_data.get("complexity", {}).get("complexity_score", 0)\<close>\<close>

definition get_complexity_score :: "analysis_data \<Rightarrow> real" where
  "get_complexity_score a =
     (case complexity a of None \<Rightarrow> 0
      | Some c \<Rightarrow> (case complexity_score c of None \<Rightarrow> 0 | Some s \<Rightarrow> s))"

text \<open>\<^verbatim>\<open>analysis_data.get("test_gap", {}).get("test_coverage_ratio", 1.0)\<close>\<close>

definition get_test_coverage_ratio :: "analysis_data \<Rightarrow> real" where
  "get_test_coverage_ratio a =
     (case test_gap a of None \<Rightarrow> 1
      | Some g \<Rightarrow> (case test_coverage_ratio g of None \<Rightarrow> 1 | Some r \<Rightarrow> r))"

text \<open>\<^verbatim>\<open>analysis_data.get("todos_dead_code", {}).get("todos", 0)\<close>\<close>

definition get_todos :: "analysis_data \<Rightarrow> int" where
  "get_todos a =
     (case todos_dead_code a of None \<Rightarrow> 0
      | Some t \<Rightarrow> (case todos t of None \<Rightarrow> 0 | Some n \<Rightarrow> n))"

section \<open>Signal scorer\<close>

text \<open>
  \<^verbatim>\<open>_calculate_risk\<close>: a score that starts at 0 and is bumped by three independent
  checks, the first two with an \<^verbatim>\<open>elif\<close>, then mapped to a level.
\<close>

definition calculate_risk :: "analysis_data \<Rightarrow> string" where
  "calculate_risk a =
     (let risk_score = (0::int);
          risk_score = (if get_complexity_score a > 100 then risk_score + 3
                        else if get_complexity_score a > 50 then risk_score + 2
                        else risk_score);
          test_ratio = get_test_coverage_ratio a;
          risk_score = (if test_ratio < 0.3 then risk_score + 3
                        else if test_ratio < 0.5 then risk_score + 2
                        else risk_score);
          risk_score = (if get_todos a > 5 then risk_score + 2 else risk_score)
      in if risk_score \<ge> 5 then ''high''
         else if risk_score \<ge> 3 then ''medium''
         else ''low'')"

text \<open>
  \<^verbatim>\<open>_calculate_priority\<close>: five independent \<^verbatim>\<open>if\<close> statements, no \<^verbatim>\<open>elif\<close>.
\<close>

definition calculate_priority :: "analysis_data \<Rightarrow> string" where
  "calculate_priority a =
     (let priority_score = (0::int);
          priority_score = (if get_duplication a > 10 then priority_score + 3
                            else priority_score);
          priority_score = (if get_complexity_score a > 100 then priority_score + 3
                            else priority_score);
          priority_score = (if get_test_coverage_ratio a < 0.2 then priority_score + 3
                            else priority_score);
          priority_score = (if get_duplication a > 5 then priority_score + 2
                            else priority_score);
          priority_score = (if get_complexity_score a > 50 then priority_score + 2
                            else priority_score)
      in if priority_score \<ge> 6 then ''high''
         else if priority_score \<ge> 3 then ''medium''
         else ''low'')"

text \<open>
  \<^verbatim>\<open>_estimate_cost\<close>: Python's \<^verbatim>\<open>//\<close> is floor division, on integers (\<open>div\<close> on
  \<open>int\<close>) and on numbers (the floor of the quotient).
\<close>

definition estimate_cost :: "analysis_data \<Rightarrow> string" where
  "estimate_cost a =
     (let cost_score = (0::int);
          complexity_score = get_complexity_score a;
          cost_score = cost_score + \<lfloor>complexity_score / 10\<rfloor>;
          cost_score = cost_score + get_duplication a div 2;
          test_ratio = get_test_coverage_ratio a;
          cost_score = (if test_ratio < 0.5 then cost_score + 2 else cost_score)
      in if cost_score > 10 then ''high''
         else if cost_score > 5 then ''medium''
         else ''low'')"

subsection \<open>The scores as the specification words them\<close>

definition risk_score_spec :: "real \<Rightarrow> real \<Rightarrow> int \<Rightarrow> int" where
  "risk_score_spec c r t =
     (if c > 100 then 3 else if c > 50 then 2 else 0)
     + (if r < 0.3 then 3 else if r < 0.5 then 2 else 0)
     + (if t > 5 then 2 else 0)"

definition risk_level_spec :: "int \<Rightarrow> string" where
  "risk_level_spec s = (if s \<ge> 5 then ''high'' else if s \<ge> 3 then ''medium'' else ''low'')"

definition priority_score_spec :: "int \<Rightarrow> real \<Rightarrow> real \<Rightarrow> int" where
  "priority_score_spec d c r =
     (if d > 10 then 3 else 0) + (if c > 100 then 3 else 0) + (if r < 0.2 then 3 else 0)
     + (if d > 5 then 2 else 0) + (if c > 50 then 2 else 0)"

definition priority_level_spec :: "int \<Rightarrow> string" where
  "priority_level_spec s = (if s \<ge> 6 then ''high'' else if s \<ge> 3 then ''medium'' else ''low'')"

definition cost_score_spec :: "real \<Rightarrow> int \<Rightarrow> real \<Rightarrow> int" where
  "cost_score_spec c d r = \<lfloor>c / 10\<rfloor> + d div 2 + (if r < 0.5 then 2 else 0)"

definition cost_level_spec :: "int \<Rightarrow> string" where
  "cost_level_spec s = (if s > 10 then ''high'' else if s > 5 then ''medium'' else ''low'')"

section \<open>Python strings\<close>

text \<open>
  A Python string is modelled as a \<open>string\<close> whose characters are read as the code points
  below 256. On that range \<^verbatim>\<open>str.isspace\<close>, \<^verbatim>\<open>str.split()\<close>, \<^verbatim>\<open>str.strip()\<close> and the
  class \<^verbatim>\<open>\s\<close> of \<^verbatim>\<open>re\<close> agree on the twelve characters below, and \<^verbatim>\<open>str.lower\<close>
  moves \<^verbatim>\<open>A-Z\<close> and the capital letters of Latin-1 up by 32.
\<close>

definition whitespace :: "char list" where
  "whitespace =
     [CHR 0x09, CHR 0x0A, CHR 0x0B, CHR 0x0C, CHR 0x0D, CHR 0x1C, CHR 0x1D, CHR 0x1E,
      CHR 0x1F, CHR 0x20, CHR 0x85, CHR 0xA0]"

definition is_space :: "char \<Rightarrow> bool" where
  "is_space c = (c \<in> set whitespace)"

definition lower_char :: "char \<Rightarrow> char" where
  "lower_char c =
     (let n = (of_char c :: nat)
      in if (65 \<le> n \<and> n \<le> 90) \<or> (192 \<le> n \<and> n \<le> 214) \<or> (216 \<le> n \<and> n \<le> 222)
         then char_of (n + 32) else c)"

definition lower :: "string \<Rightarrow> string" where
  "lower s = map lower_char s"

text \<open>\<^verbatim>\<open>s.strip()\<close>\<close>

definition strip :: "string \<Rightarrow> string" where
  "strip s = rev (dropWhile is_space (rev (dropWhile is_space s)))"

text \<open>\<^verbatim>\<open>s.split()\<close>: the maximal runs of characters that are not whitespace.\<close>

fun split_ws :: "string \<Rightarrow> string list" where
  "split_ws [] = []"
| "split_ws (c # cs) =
     (if is_space c then split_ws cs
      else (case split_ws cs of
              [] \<Rightarrow> [[c]]
            | w # ws \<Rightarrow>
                (case cs of
                   [] \<Rightarrow> [[c]]
                 | d # _ \<Rightarrow> if is_space d then [c] # w # ws else (c # w) # ws)))"

text \<open>\<^verbatim>\<open>s.split(sep)\<close> for a one-character separator: never empty.\<close>

fun split_on :: "char \<Rightarrow> string \<Rightarrow> string list" where
  "split_on sep [] = [[]]"
| "split_on sep (c # cs) =
     (if c = sep then [] # split_on sep cs
      else (case split_on sep cs of
              [] \<Rightarrow> [[c]]
            | w # ws \<Rightarrow> (c # w) # ws))"

text \<open>\<^verbatim>\<open>sub in s\<close>\<close>

fun contains :: "string \<Rightarrow> string \<Rightarrow> bool" where
  "contains sub [] = (sub = [])"
| "contains sub (c # cs) = (prefix sub (c # cs) \<or> contains sub cs)"

text \<open>\<^verbatim>\<open>sep.join(xs)\<close>\<close>

fun join :: "string \<Rightarrow> string list \<Rightarrow> string" where
  "join sep [] = []"
| "join sep [x] = x"
| "join sep (x # y # ys) = x @ sep @ join sep (y # ys)"

text \<open>\<^verbatim>\<open>os.path.basename\<close> on POSIX paths: what follows the last slash.\<close>

definition basename :: "string \<Rightarrow> string" where
  "basename p = rev (takeWhile (\<lambda>c. c \<noteq> CHR ''/'') (rev p))"

section \<open>Constraint parser\<close>

text \<open>
  The patterns of \<^verbatim>\<open>parse_explicit_constraints\<close> are built from four pieces only: a
  literal word, \<^verbatim>\<open>\s+\<close>, an optional group of a word and \<^verbatim>\<open>\s+\<close>, and the captured
  \<^verbatim>\<open>([^\s,.]+)\<close> that ends every pattern. A matcher takes the text at a position and
  returns the capture with the text after the match. Both repetitions are greedy and
  giving a character back never helps: after the longest run of whitespace the next
  character is not whitespace, and what follows \<^verbatim>\<open>\s+\<close> in every pattern starts with a
  character that is not whitespace; the capture is last. So the first match that the
  backtracking search of \<^verbatim>\<open>re\<close> finds is the one with the longest runs.
\<close>

type_synonym matcher = "string \<Rightarrow> (string \<times> string) option"

definition is_tok :: "char \<Rightarrow> bool" where
  "is_tok c = (\<not> is_space c \<and> c \<noteq> CHR '','' \<and> c \<noteq> CHR ''.'')"

definition match_lit :: "string \<Rightarrow> string \<Rightarrow> string option" where
  "match_lit l s = (if prefix l s then Some (drop (length l) s) else None)"

definition match_spaces :: "string \<Rightarrow> string option" where
  "match_spaces s =
     (case s of [] \<Rightarrow> None
      | c # cs \<Rightarrow> if is_space c then Some (dropWhile is_space cs) else None)"

definition match_token :: matcher where
  "match_token s =
     (let t = takeWhile is_tok s in if t = [] then None else Some (t, dropWhile is_tok s))"

text \<open>\<^verbatim>\<open>word\s+([^\s,.]+)\<close>\<close>

definition word_then_token :: "string \<Rightarrow> matcher" where
  "word_then_token w s =
     Option.bind (match_lit w s) (\<lambda>r. Option.bind (match_spaces r) match_token)"

text \<open>\<^verbatim>\<open>(?:word\s+)?([^\s,.]+)\<close>: the group is tried first, then skipped.\<close>

definition opt_word_then_token :: "string \<Rightarrow> matcher" where
  "opt_word_then_token w s =
     (case word_then_token w s of Some m \<Rightarrow> Some m | None \<Rightarrow> match_token s)"

text \<open>\<^verbatim>\<open>(?:w1|w2)\<close>: the alternatives in order.\<close>

definition match_alt :: "string \<Rightarrow> string \<Rightarrow> string \<Rightarrow> string option" where
  "match_alt w1 w2 s = (case match_lit w1 s of Some r \<Rightarrow> Some r | None \<Rightarrow> match_lit w2 s)"

text \<open>\<^verbatim>\<open>avoid\s+(?:using\s+)?([^\s,.]+)\<close>\<close>

definition avoid_using :: matcher where
  "avoid_using s =
     Option.bind (match_lit ''avoid'' s)
       (\<lambda>r. Option.bind (match_spaces r) (opt_word_then_token ''using''))"

text \<open>\<^verbatim>\<open>don\'t\s+use\s+([^\s,.]+)\<close>\<close>

definition dont_use :: matcher where
  "dont_use s =
     Option.bind (match_lit ''don'' s)
       (\<lambda>r. Option.bind (match_lit [CHR 0x27] r)
          (\<lambda>r. Option.bind (match_lit ''t'' r)
             (\<lambda>r. Option.bind (match_spaces r) (word_then_token ''use''))))"

text \<open>\<^verbatim>\<open>(?:prefer|use)\s+(?:the\s+)?([^\s,.]+)\<close>\<close>

definition prefer_use :: matcher where
  "prefer_use s =
     Option.bind (match_alt ''prefer'' ''use'' s)
       (\<lambda>r. Option.bind (match_spaces r) (opt_word_then_token ''the''))"

text \<open>\<^verbatim>\<open>(?:must|should)\s+use\s+([^\s,.]+)\<close>\<close>

definition must_use :: matcher where
  "must_use s =
     Option.bind (match_alt ''must'' ''should'' s)
       (\<lambda>r. Option.bind (match_spaces r) (word_then_token ''use''))"

definition avoid_patterns :: "matcher list" where
  "avoid_patterns =
     [avoid_using, dont_use, word_then_token ''forbid'', word_then_token ''no'',
      word_then_token ''without'']"

definition prefer_patterns :: "matcher list" where
  "prefer_patterns =
     [prefer_use, must_use, word_then_token ''with'', word_then_token ''using'']"

text \<open>
  \<^verbatim>\<open>re.findall\<close> with one group: the captures of the matches found from left to right,
  each search starting where the previous match ended. The counter is the number of
  characters of the last match that are still to be stepped over.
\<close>

fun findall_from :: "matcher \<Rightarrow> nat \<Rightarrow> string \<Rightarrow> string list" where
  "findall_from m k [] = (case m [] of Some (cap, _) \<Rightarrow> [cap] | None \<Rightarrow> [])"
| "findall_from m (Suc k) (c # cs) = findall_from m k cs"
| "findall_from m 0 (c # cs) =
     (case m (c # cs) of
        Some (cap, rest) \<Rightarrow> cap # findall_from m (length cs - length rest) cs
      | None \<Rightarrow> findall_from m 0 cs)"

definition findall :: "matcher \<Rightarrow> string \<Rightarrow> string list" where
  "findall m s = findall_from m 0 s"

definition stop_words :: "string list" where
  "stop_words = [''the'', ''a'', ''an'', ''to'', ''and'', ''or'']"

text \<open>
  The two loops over a pattern list: every match that is not a stop-word is appended,
  stripped.
\<close>

definition collect_matches :: "matcher list \<Rightarrow> string \<Rightarrow> string list" where
  "collect_matches ps s =
     concat (map (\<lambda>p. map strip (filter (\<lambda>x. x \<notin> set stop_words) (findall p s))) ps)"

record parsed_constraints =
  parsed_constraints_explicit :: "string list"
  parsed_libraries_forbidden :: "string list"
  parsed_libraries_preferred :: "string list"

definition parse_explicit_constraints :: "string \<Rightarrow> parsed_constraints" where
  "parse_explicit_constraints p =
     (let lower_prompt = lower p;
          libraries_forbidden = collect_matches avoid_patterns lower_prompt;
          libraries_preferred = collect_matches prefer_patterns lower_prompt;
          ce = [];
          ce = (if contains ''no dependencies'' lower_prompt
                   \<or> contains ''no external deps'' lower_prompt
                then ce @ [''Minimize external dependencies''] else ce);
          ce = (if contains ''performance'' lower_prompt
                then ce @ [''Optimize for performance''] else ce);
          ce = (if contains ''security'' lower_prompt \<or> contains ''secure'' lower_prompt
                then ce @ [''Follow security best practices''] else ce);
          ce = (if contains ''async'' lower_prompt \<or> contains ''asynchronous'' lower_prompt
                then ce @ [''Use asynchronous programming''] else ce);
          ce = (if contains ''type'' lower_prompt \<and> contains ''hint'' lower_prompt
                then ce @ [''Use type hints''] else ce);
          ce = (if contains ''test'' lower_prompt
                then ce @ [''Include comprehensive tests''] else ce)
      in \<lparr>parsed_constraints_explicit = ce,
          parsed_libraries_forbidden = libraries_forbidden,
          parsed_libraries_preferred = libraries_preferred\<rparr>)"

section \<open>Task specifications\<close>

text \<open>
  The pydantic model \<^verbatim>\<open>TaskSpec\<close>. Only \<^verbatim>\<open>verbosity\<close> is declared as a literal type;
  \<^verbatim>\<open>risk\<close>, \<^verbatim>\<open>priority\<close> and \<^verbatim>\<open>estimated_cost\<close> are declared \<^verbatim>\<open>str\<close>.
\<close>

datatype verbosity = Minimal | Normal | Verbose

record taskspec =
  goal :: string
  inputs :: "string list"
  outputs :: "string list"
  constraints_explicit :: "string list"
  constraints_inferred :: "string list"
  libraries_preferred :: "string list"
  libraries_forbidden :: "string list"
  style_guides :: "string list"
  naming_conventions :: "string list"
  design_patterns :: "string list"
  testing_strategy :: string
  edge_cases :: "string list"
  verbosity :: verbosity
  open_questions :: "string list"
  risk :: string
  priority :: string
  estimated_cost :: string

text \<open>
  A task specification as a dictionary (\<^verbatim>\<open>Dict[str, Any]\<close>): what \<^verbatim>\<open>taskspec.dict()\<close>
  returns, what a request carries and what the decision store holds. Every key may be
  absent; \<^verbatim>\<open>examples\<close> is a key that enrichment writes and that \<^verbatim>\<open>TaskSpec\<close> does not
  declare. The verbosity is a plain string here.
\<close>

record spec_dict =
  d_goal :: "string option"
  d_inputs :: "string list option"
  d_outputs :: "string list option"
  d_constraints_explicit :: "string list option"
  d_constraints_inferred :: "string list option"
  d_libraries_preferred :: "string list option"
  d_libraries_forbidden :: "string list option"
  d_style_guides :: "string list option"
  d_naming_conventions :: "string list option"
  d_design_patterns :: "string list option"
  d_testing_strategy :: "string option"
  d_edge_cases :: "string list option"
  d_verbosity :: "string option"
  d_open_questions :: "string list option"
  d_risk :: "string option"
  d_priority :: "string option"
  d_estimated_cost :: "string option"
  d_examples :: "string list option"

fun verbosity_str :: "verbosity \<Rightarrow> string" where
  "verbosity_str Minimal = ''minimal''"
| "verbosity_str Normal = ''normal''"
| "verbosity_str Verbose = ''verbose''"

definition parse_verbosity :: "string \<Rightarrow> verbosity option" where
  "parse_verbosity s =
     (if s = ''minimal'' then Some Minimal
      else if s = ''normal'' then Some Normal
      else if s = ''verbose'' then Some Verbose
      else None)"

text \<open>\<^verbatim>\<open>taskspec.dict()\<close>: every declared field, and nothing else.\<close>

definition dict_of :: "taskspec \<Rightarrow> spec_dict" where
  "dict_of t =
     \<lparr>d_goal = Some (goal t), d_inputs = Some (inputs t), d_outputs = Some (outputs t),
      d_constraints_explicit = Some (constraints_explicit t),
      d_constraints_inferred = Some (constraints_inferred t),
      d_libraries_preferred = Some (libraries_preferred t),
      d_libraries_forbidden = Some (libraries_forbidden t),
      d_style_guides = Some (style_guides t),
      d_naming_conventions = Some (naming_conventions t),
      d_design_patterns = Some (design_patterns t),
      d_testing_strategy = Some (testing_strategy t),
      d_edge_cases = Some (edge_cases t),
      d_verbosity = Some (verbosity_str (verbosity t)),
      d_open_questions = Some (open_questions t),
      d_risk = Some (risk t), d_priority = Some (priority t),
      d_estimated_cost = Some (estimated_cost t),
      d_examples = None\<rparr>"

text \<open>\<^verbatim>\<open>d.get(key, [])\<close> and \<^verbatim>\<open>d.get(key, default)\<close>\<close>

definition get_list :: "'a list option \<Rightarrow> 'a list" where
  "get_list v = (case v of None \<Rightarrow> [] | Some xs \<Rightarrow> xs)"

definition get_or :: "'a \<Rightarrow> 'a option \<Rightarrow> 'a" where
  "get_or dflt v = (case v of None \<Rightarrow> dflt | Some x \<Rightarrow> x)"

text \<open>
  \<^verbatim>\<open>TaskSpec(**d)\<close>: a missing field takes the default of the class, an undeclared key
  is ignored, and validation fails (\<open>None\<close>) when \<^verbatim>\<open>goal\<close> is missing or the verbosity
  is not one of the three literals.
\<close>

definition taskspec_of :: "spec_dict \<Rightarrow> taskspec option" where
  "taskspec_of d =
     (case d_goal d of
        None \<Rightarrow> None
      | Some g \<Rightarrow>
          (case parse_verbosity (get_or ''normal'' (d_verbosity d)) of
             None \<Rightarrow> None
           | Some v \<Rightarrow>
               Some \<lparr>goal = g, inputs = get_list (d_inputs d),
                     outputs = get_list (d_outputs d),
                     constraints_explicit = get_list (d_constraints_explicit d),
                     constraints_inferred = get_list (d_constraints_inferred d),
                     libraries_preferred = get_list (d_libraries_preferred d),
                     libraries_forbidden = get_list (d_libraries_forbidden d),
                     style_guides = get_list (d_style_guides d),
                     naming_conventions = get_list (d_naming_conventions d),
                     design_patterns = get_list (d_design_patterns d),
                     testing_strategy = get_or [] (d_testing_strategy d),
                     edge_cases = get_list (d_edge_cases d),
                     verbosity = v,
                     open_questions = get_list (d_open_questions d),
                     risk = get_or ''medium'' (d_risk d),
                     priority = get_or ''medium'' (d_priority d),
                     estimated_cost = get_or ''medium'' (d_estimated_cost d)\<rparr>))"

section \<open>Retrieval policy\<close>

text \<open>
  A decision as \<^verbatim>\<open>MemoryStore.get_decisions\<close> returns it. The store itself is a database
  outside the pipeline: the functions below take the list it returns. \<^verbatim>\<open>json.dumps\<close>
  is a library function and a parameter too, once for a stored specification and once
  for a whole item.
\<close>

record decision =
  dec_id :: int
  dec_timestamp :: int
  dec_spec :: spec_dict
  dec_pinned :: bool

record retrieved_context =
  decisions :: "decision list option"
  similar_items :: "decision list option"
  total_tokens :: "int option"

text \<open>\<^verbatim>\<open>_estimate_tokens\<close>\<close>

fun estimate_tokens :: "(decision \<Rightarrow> string) \<Rightarrow> decision list \<Rightarrow> int" where
  "estimate_tokens dumps [] = 0"
| "estimate_tokens dumps (item # items) =
     int (length (dumps item) div 4) + estimate_tokens dumps items"

text \<open>\<^verbatim>\<open>xs[:n]\<close>: a negative bound counts from the end.\<close>

definition slice_to :: "int \<Rightarrow> 'a list \<Rightarrow> 'a list" where
  "slice_to n xs = (if n \<ge> 0 then take (nat n) xs else take (length xs - nat (- n)) xs)"

text \<open>
  The loop of \<^verbatim>\<open>retrieve_context\<close>: a decision is kept when some keyword of the query
  occurs in its serialised, lower-cased specification; the loop breaks once
  \<^verbatim>\<open>max_items\<close> are kept.
\<close>

fun relevant_loop ::
  "(spec_dict \<Rightarrow> string) \<Rightarrow> string list \<Rightarrow> int \<Rightarrow> decision list \<Rightarrow> decision list
   \<Rightarrow> decision list" where
  "relevant_loop dumps_spec keywords max_items [] relevant = relevant"
| "relevant_loop dumps_spec keywords max_items (d # ds) relevant =
     (let spec_text = lower (dumps_spec (dec_spec d))
      in if list_ex (\<lambda>keyword. contains keyword spec_text) keywords
         then (let relevant = relevant @ [d]
               in if int (length relevant) \<ge> max_items then relevant
                  else relevant_loop dumps_spec keywords max_items ds relevant)
         else relevant_loop dumps_spec keywords max_items ds relevant)"

definition retrieve_context ::
  "(spec_dict \<Rightarrow> string) \<Rightarrow> (decision \<Rightarrow> string) \<Rightarrow> decision list \<Rightarrow> string \<Rightarrow> int
   \<Rightarrow> retrieved_context" where
  "retrieve_context dumps_spec dumps_item stored query max_items =
     (let query_lower = lower query;
          relevant_decisions =
            relevant_loop dumps_spec (split_ws query_lower) max_items stored [];
          similar_items = []
      in \<lparr>decisions = Some (slice_to max_items relevant_decisions),
          similar_items = Some similar_items,
          total_tokens = Some (estimate_tokens dumps_item (relevant_decisions @ similar_items))\<rparr>)"

text \<open>\<^verbatim>\<open>summarize_overflow\<close>\<close>

definition summarize_overflow ::
  "(decision \<Rightarrow> string) \<Rightarrow> retrieved_context \<Rightarrow> int \<Rightarrow> retrieved_context" where
  "summarize_overflow dumps_item ctx max_tokens =
     (let current_tokens = get_or 0 (total_tokens ctx)
      in if current_tokens \<le> max_tokens then ctx
         else
           (let summarized = ctx;
                summarized =
                  (if length (get_list (decisions summarized)) > 2
                   then summarized\<lparr>decisions := Some (take 2 (get_list (decisions summarized)))\<rparr>
                   else summarized)
            in summarized\<lparr>total_tokens :=
                 Some (estimate_tokens dumps_item
                         (get_list (decisions summarized)
                          @ get_list (similar_items summarized)))\<rparr>))"

section \<open>Enrichment engine\<close>

text \<open>
  \<^verbatim>\<open>constraint_counts\<close> is a dictionary that is read back in insertion order: an
  association list in which a known key is bumped in place and a new key goes last.
\<close>

fun bump_count :: "(string \<times> nat) list \<Rightarrow> string \<Rightarrow> (string \<times> nat) list" where
  "bump_count [] k = [(k, 1)]"
| "bump_count ((k', n) # kvs) k =
     (if k' = k then (k', n + 1) # kvs else (k', n) # bump_count kvs k)"

text \<open>\<^verbatim>\<open>_extract_patterns_from_context\<close>\<close>

definition extract_patterns_from_context :: "retrieved_context \<Rightarrow> string list" where
  "extract_patterns_from_context ctx =
     (let ds = get_list (decisions ctx)
      in if length ds < 2 then []
         else
           (let constraint_counts =
                  foldl (\<lambda>counts d.
                           foldl bump_count counts
                             (get_list (d_constraints_inferred (dec_spec d))))
                    [] ds
            in map (\<lambda>(constraint, count). ''Pattern: '' @ constraint)
                 (filter (\<lambda>(constraint, count). count \<ge> 2) constraint_counts)))"

text \<open>\<^verbatim>\<open>_extract_edge_cases_from_context\<close>\<close>

definition extract_edge_cases_from_context :: "retrieved_context \<Rightarrow> string list" where
  "extract_edge_cases_from_context ctx =
     take 5
       (foldl (\<lambda>cases d.
                 foldl (\<lambda>cases c. if c \<in> set cases then cases else cases @ [c]) cases
                   (get_list (d_edge_cases (dec_spec d))))
          [] (get_list (decisions ctx)))"

text \<open>\<^verbatim>\<open>_extract_examples_from_context\<close>\<close>

definition extract_examples_from_context :: "retrieved_context \<Rightarrow> string list" where
  "extract_examples_from_context ctx =
     take 3
       (foldl (\<lambda>examples d.
                 (let g = get_or [] (d_goal (dec_spec d))
                  in if g \<noteq> [] then examples @ [''Similar task: '' @ g] else examples))
          [] (get_list (decisions ctx)))"

text \<open>
  \<^verbatim>\<open>enrich_taskspec\<close>, on the dictionary it is given; \<^verbatim>\<open>retrieve_context\<close> is called with
  its default of 5 items.
\<close>

definition enrich_taskspec ::
  "(spec_dict \<Rightarrow> string) \<Rightarrow> (decision \<Rightarrow> string) \<Rightarrow> decision list \<Rightarrow> spec_dict
   \<Rightarrow> spec_dict" where
  "enrich_taskspec dumps_spec dumps_item stored taskspec =
     (let enriched = taskspec;
          query = get_or [] (d_goal taskspec)
      in if query = [] then enriched
         else
           (let ctx = retrieve_context dumps_spec dumps_item stored query 5;
                patterns = extract_patterns_from_context ctx;
                enriched =
                  (if patterns \<noteq> []
                   then enriched\<lparr>d_constraints_inferred :=
                          Some (get_list (d_constraints_inferred enriched) @ patterns)\<rparr>
                   else enriched);
                cases = extract_edge_cases_from_context ctx;
                enriched =
                  (if cases \<noteq> []
                   then enriched\<lparr>d_edge_cases :=
                          Some (get_list (d_edge_cases enriched) @ cases)\<rparr>
                   else enriched);
                examples = extract_examples_from_context ctx;
                enriched =
                  (if examples \<noteq> [] then enriched\<lparr>d_examples := Some examples\<rparr>
                   else enriched)
            in enriched))"

section \<open>Task specification assembler\<close>

text \<open>The style profile is a dictionary read from a JSON file, every key optional.\<close>

record style_profile =
  sp_naming_conventions :: "string list option"
  sp_testing_strategy :: "string option"
  sp_style_guides :: "string list option"
  sp_design_patterns :: "string list option"
  sp_libraries_preferred :: "string list option"
  sp_libraries_forbidden :: "string list option"

text \<open>\<^verbatim>\<open>_get_default_style_profile\<close>\<close>

definition get_default_style_profile :: style_profile where
  "get_default_style_profile =
     \<lparr>sp_naming_conventions = Some [''functions: snake_case'', ''classes: PascalCase''],
      sp_testing_strategy = Some ''pytest; arrange-act-assert'',
      sp_style_guides = Some [''google docstrings''],
      sp_design_patterns = Some [''dependency_injection'', ''pure_functions_first''],
      sp_libraries_preferred = Some [],
      sp_libraries_forbidden = Some []\<rparr>"

text \<open>\<^verbatim>\<open>_infer_goal_from_analysis\<close>\<close>

definition infer_goal_from_analysis :: "analysis_data \<Rightarrow> string \<Rightarrow> string" where
  "infer_goal_from_analysis a filename =
     (let issues = [];
          issues = (if get_duplication a > 3 then issues @ [''refactor duplicated code'']
                    else issues);
          issues = (if get_complexity_score a > 50
                    then issues @ [''simplify complex functions''] else issues);
          issues = (if get_test_coverage_ratio a < 0.5 then issues @ [''add missing tests'']
                    else issues);
          issues = (if get_todos a > 2 then issues @ [''address TODO items''] else issues)
      in if issues \<noteq> []
         then ''Improve code quality in '' @ filename @ '': '' @ join '', '' issues
         else ''Maintain code quality in '' @ filename)"

text \<open>
  \<^verbatim>\<open>cluster_signals_to_taskspec\<close>. Its parameters besides the analysis data are the
  style profile of the generator, the order in which Python lists a set
  (\<^verbatim>\<open>list(set(xs))\<close>), the two serialisers and the stored decisions. The result is
  \<open>None\<close> when the final \<^verbatim>\<open>TaskSpec(**enriched_taskspec)\<close> fails to validate.
\<close>

definition cluster_signals_to_taskspec ::
  "style_profile \<Rightarrow> (string list \<Rightarrow> string list) \<Rightarrow> (spec_dict \<Rightarrow> string)
   \<Rightarrow> (decision \<Rightarrow> string) \<Rightarrow> decision list \<Rightarrow> analysis_data \<Rightarrow> taskspec option" where
  "cluster_signals_to_taskspec profile list_set dumps_spec dumps_item stored a =
     (let fp = get_or [] (filepath a);
          filename = (if fp \<noteq> [] then basename fp else ''unknown'');
          g = infer_goal_from_analysis a filename;
          pr = get_or [] (prompt a);
          parsed = (if pr \<noteq> [] then parse_explicit_constraints pr
                    else \<lparr>parsed_constraints_explicit = [],
                          parsed_libraries_forbidden = [],
                          parsed_libraries_preferred = []\<rparr>);
          ce = parsed_constraints_explicit parsed;
          ci = [];
          oq = [];
          (ci, oq) = (if get_duplication a > 3
                      then (ci @ [''Address code duplication''],
                            oq @ [''Which duplicated sections should be refactored into shared functions?''])
                      else (ci, oq));
          (ci, oq) = (if get_complexity_score a > 50
                      then (ci @ [''Reduce function complexity''],
                            oq @ [''How can this complex function be broken down?''])
                      else (ci, oq));
          (ci, oq) = (if get_test_coverage_ratio a < 0.5
                      then (ci @ [''Improve test coverage''],
                            oq @ [''Which functions need test cases?''])
                      else (ci, oq));
          (ci, oq) = (if get_todos a > 2
                      then (ci @ [''Address outstanding TODO items''],
                            oq @ [''Which TODO items should be prioritized?''])
                      else (ci, oq));
          ci = ci @ map (\<lambda>guide. ''Follow '' @ guide) (get_list (sp_style_guides profile));
          all_preferred =
            list_set (parsed_libraries_preferred parsed
                      @ get_list (sp_libraries_preferred profile));
          all_forbidden =
            list_set (parsed_libraries_forbidden parsed
                      @ get_list (sp_libraries_forbidden profile));
          risk_level = calculate_risk a;
          prio = calculate_priority a;
          t = \<lparr>goal = g,
               inputs = (if fp \<noteq> [] then [fp] else []),
               outputs = [],
               constraints_explicit = ce,
               constraints_inferred = ci,
               libraries_preferred = all_preferred,
               libraries_forbidden = all_forbidden,
               style_guides = get_list (sp_style_guides profile),
               naming_conventions = get_list (sp_naming_conventions profile),
               design_patterns = get_list (sp_design_patterns profile),
               testing_strategy = get_or [] (sp_testing_strategy profile),
               edge_cases = [],
               verbosity = Normal,
               open_questions = oq,
               risk = risk_level,
               priority = prio,
               estimated_cost = estimate_cost a\<rparr>;
          enriched_taskspec = enrich_taskspec dumps_spec dumps_item stored (dict_of t)
      in taskspec_of enriched_taskspec)"

text \<open>\<^verbatim>\<open>generate_clarifying_questions\<close>\<close>

definition generate_clarifying_questions :: "taskspec \<Rightarrow> string list" where
  "generate_clarifying_questions t =
     (let questions = [];
          questions = (if inputs t = []
                       then questions @ [''What are the main inputs this code should handle?'']
                       else questions);
          questions = (if outputs t = []
                       then questions @ [''What outputs should this code produce?'']
                       else questions);
          questions = (if length (split_ws (goal t)) < 5
                       then questions @ [''Can you provide more details about what this code should accomplish?'']
                       else questions);
          questions = (if testing_strategy t = [] \<or> testing_strategy t = []
                       then questions @ [''What testing approach should be used (unit tests, integration tests, etc.)?'']
                       else questions);
          questions = (if constraints_explicit t = []
                       then questions @ [''Are there any specific requirements or constraints I should follow?'']
                       else questions);
          questions = (if edge_cases t = []
                       then questions @ [''What edge cases or error conditions should be considered?'']
                       else questions);
          questions = (if libraries_preferred t = [] \<and> libraries_forbidden t = []
                       then questions @ [''Are there any preferred or forbidden libraries/frameworks?'']
                       else questions)
      in questions)"

text \<open>
  \<^verbatim>\<open>enhance_taskspec_with_answers\<close>: the answers are a dictionary, visited in insertion
  order; one step of the loop is \<open>apply_answer\<close>.
\<close>

definition split_strip :: "string \<Rightarrow> string list" where
  "split_strip answer = map strip (split_on CHR '','' answer)"

definition apply_answer :: "taskspec \<Rightarrow> string \<times> string \<Rightarrow> taskspec" where
  "apply_answer enhanced qa =
     (let question = lower (fst qa); answer = snd qa
      in if contains ''inputs'' question then enhanced\<lparr>inputs := split_strip answer\<rparr>
         else if contains ''outputs'' question then enhanced\<lparr>outputs := split_strip answer\<rparr>
         else if contains ''testing'' question then enhanced\<lparr>testing_strategy := answer\<rparr>
         else if contains ''requirements'' question \<or> contains ''constraints'' question
         then enhanced\<lparr>constraints_explicit := constraints_explicit enhanced @ [answer]\<rparr>
         else if contains ''edge cases'' question
         then enhanced\<lparr>edge_cases := split_strip answer\<rparr>
         else if contains ''libraries'' question
         then (if contains ''preferred'' question
               then enhanced\<lparr>libraries_preferred := split_strip answer\<rparr>
               else if contains ''forbidden'' question
               then enhanced\<lparr>libraries_forbidden := split_strip answer\<rparr>
               else enhanced)
         else enhanced)"

definition enhance_taskspec_with_answers ::
  "taskspec \<Rightarrow> (string \<times> string) list \<Rightarrow> taskspec" where
  "enhance_taskspec_with_answers t answers = foldl apply_answer t answers"

section \<open>Named values used in the statements\<close>

text \<open>The three levels of \<^verbatim>\<open>risk\<close>, \<^verbatim>\<open>priority\<close> and \<^verbatim>\<open>estimated_cost\<close>.\<close>

definition levels :: "string list" where
  "levels = [''low'', ''medium'', ''high'']"

text \<open>
  The checks of \<^verbatim>\<open>generate_clarifying_questions\<close> as the specification lists them: each
  condition with its question, in the documented order.
\<close>

definition clarifying_checks :: "taskspec \<Rightarrow> (bool \<times> string) list" where
  "clarifying_checks t =
     [(inputs t = [], ''What are the main inputs this code should handle?''),
      (outputs t = [], ''What outputs should this code produce?''),
      (length (split_ws (goal t)) < 5,
       ''Can you provide more details about what this code should accomplish?''),
      (testing_strategy t = [],
       ''What testing approach should be used (unit tests, integration tests, etc.)?''),
      (constraints_explicit t = [],
       ''Are there any specific requirements or constraints I should follow?''),
      (edge_cases t = [], ''What edge cases or error conditions should be considered?''),
      (libraries_preferred t = [] \<and> libraries_forbidden t = [],
       ''Are there any preferred or forbidden libraries/frameworks?'')]"

text \<open>
  The specification of the repository's tests: \<^verbatim>\<open>TaskSpec(goal="Create a function")\<close>
  with every other field at its default.
\<close>

definition test_taskspec :: taskspec where
  "test_taskspec =
     \<lparr>goal = ''Create a function'', inputs = [], outputs = [], constraints_explicit = [],
      constraints_inferred = [], libraries_preferred = [], libraries_forbidden = [],
      style_guides = [], naming_conventions = [], design_patterns = [],
      testing_strategy = [], edge_cases = [], verbosity = Normal, open_questions = [],
      risk = ''medium'', priority = ''medium'', estimated_cost = ''medium''\<rparr>"

text \<open>
  The empty dictionary, a stored decision that holds a goal and nothing else, and one that
  also holds an inferred constraint and an edge case.
\<close>

definition empty_spec_dict :: spec_dict where
  "empty_spec_dict =
     \<lparr>d_goal = None, d_inputs = None, d_outputs = None, d_constraints_explicit = None,
      d_constraints_inferred = None, d_libraries_preferred = None,
      d_libraries_forbidden = None, d_style_guides = None, d_naming_conventions = None,
      d_design_patterns = None, d_testing_strategy = None, d_edge_cases = None,
      d_verbosity = None, d_open_questions = None, d_risk = None, d_priority = None,
      d_estimated_cost = None, d_examples = None\<rparr>"

definition goal_decision :: "int \<Rightarrow> string \<Rightarrow> decision" where
  "goal_decision i g =
     \<lparr>dec_id = i, dec_timestamp = 0, dec_spec = empty_spec_dict\<lparr>d_goal := Some g\<rparr>,
      dec_pinned = False\<rparr>"

text \<open>A stand-in serialiser for concrete evaluations: the goal of the specification.\<close>

definition past_decision :: "int \<Rightarrow> decision" where
  "past_decision i =
     \<lparr>dec_id = i, dec_timestamp = 0,
      dec_spec = empty_spec_dict\<lparr>d_goal := Some ''create a parser'',
                   d_constraints_inferred := Some [''Use caching''],
                   d_edge_cases := Some [''empty input'']\<rparr>,
      dec_pinned = False\<rparr>"

definition goal_text :: "spec_dict \<Rightarrow> string" where
  "goal_text d = get_or [] (d_goal d)"

text \<open>
  The four enumerated fields hold one of their enumerated values. The verbosity does so
  by its type.
\<close>

definition enum_fields_ok :: "taskspec \<Rightarrow> bool" where
  "enum_fields_ok t =
     (verbosity t \<in> {Minimal, Normal, Verbose} \<and> risk t \<in> set levels
      \<and> priority t \<in> set levels \<and> estimated_cost t \<in> set levels)"

text \<open>
  The text after a name ends it: it is empty or starts with whitespace, a comma or a
  period.
\<close>

definition delimited :: "string \<Rightarrow> bool" where
  "delimited s = (case s of [] \<Rightarrow> True | c # _ \<Rightarrow> \<not> is_tok c)"

text \<open>
  The text \<open>s\<close> starts with whitespace and what follows the whitespace satisfies \<open>P\<close>.
\<close>

definition spaces_then :: "(string \<Rightarrow> bool) \<Rightarrow> string \<Rightarrow> bool" where
  "spaces_then P s = (case s of [] \<Rightarrow> False | c # cs \<Rightarrow> is_space c \<and> P (dropWhile is_space cs))"

text \<open>
  The text \<open>s\<close> is an unfinished phrase of the keyword \<open>kw\<close>: the keyword, whitespace,
  possibly the filler word \<open>opt\<close> and whitespace, and then nothing but characters of a
  name. A name that follows such a text is captured as part of that phrase.
\<close>

definition open_phrase :: "string \<Rightarrow> string \<Rightarrow> string \<Rightarrow> bool" where
  "open_phrase kw opt s =
     (prefix kw s
      \<and> spaces_then
          (\<lambda>r. list_all is_tok r
                \<or> (prefix opt r \<and> spaces_then (list_all is_tok) (drop (length opt) r)))
          (drop (length kw) s))"

fun any_suffix :: "(string \<Rightarrow> bool) \<Rightarrow> string \<Rightarrow> bool" where
  "any_suffix P [] = P []"
| "any_suffix P (c # cs) = (P (c # cs) \<or> any_suffix P cs)"

text \<open>The text \<open>pre\<close> ends in an unfinished phrase of the keyword \<open>kw\<close>.\<close>

definition governed :: "string \<Rightarrow> string \<Rightarrow> string \<Rightarrow> bool" where
  "governed kw opt pre = any_suffix (open_phrase kw opt) pre"

text \<open>The prompt \<^verbatim>\<open>"don't use " + x\<close>.\<close>

definition dont_use_prompt :: "string \<Rightarrow> string" where
  "dont_use_prompt x = ''don'' @ [CHR 0x27] @ ''t use '' @ x"

text \<open>
  Analysis data in which the four signals are present: \<open>d\<close> duplications, complexity
  score \<open>c\<close>, coverage ratio \<open>r\<close> and \<open>n\<close> TODOs.
\<close>

abbreviation signals :: "int \<Rightarrow> real \<Rightarrow> real \<Rightarrow> int \<Rightarrow> analysis_data" where
  "signals d c r n \<equiv>
     \<lparr>filepath = None, prompt = None, duplication = Some d,
      complexity = Some \<lparr>complexity_score = Some c\<rparr>,
      test_gap = Some \<lparr>test_coverage_ratio = Some r\<rparr>,
      todos_dead_code = Some \<lparr>todos = Some n\<rparr>\<rparr>"

section \<open>Properties of the signal scorer\<close>

text \<open>
  C1. For every input, read field by field with the defaults of the code for a missing
  key, the risk level is the level of the score that adds 3 for a complexity score above
  100, otherwise 2 for one above 50; 3 for a coverage ratio below 0.3, otherwise 2 for one
  below 0.5; and 2 for more than 5 TODOs; levels are high from 5, medium from 3, low
  below. A complexity score of exactly 50 contributes nothing and one of 51 contributes
  2. The closed instances sit on either side of each threshold.
\<close>

theorem calculate_risk_spec:
  "calculate_risk a =
     risk_level_spec
       (risk_score_spec
          (case complexity a of None \<Rightarrow> 0
           | Some c \<Rightarrow> (case complexity_score c of None \<Rightarrow> 0 | Some s \<Rightarrow> s))
          (case test_gap a of None \<Rightarrow> 1
           | Some g \<Rightarrow> (case test_coverage_ratio g of None \<Rightarrow> 1 | Some r \<Rightarrow> r))
          (case todos_dead_code a of None \<Rightarrow> 0
           | Some t \<Rightarrow> (case todos t of None \<Rightarrow> 0 | Some n \<Rightarrow> n)))
   \<and> calculate_risk (signals d c r n) = risk_level_spec (risk_score_spec c r n)
   \<and> calculate_risk (signals d 50 r n) =
       risk_level_spec ((if r < 0.3 then 3 else if r < 0.5 then 2 else 0)
                        + (if n > 5 then 2 else 0))
   \<and> calculate_risk (signals d 51 r n) =
       risk_level_spec (2 + (if r < 0.3 then 3 else if r < 0.5 then 2 else 0)
                        + (if n > 5 then 2 else 0))
   \<and> calculate_risk (signals 0 50 1 6) = ''low''
   \<and> calculate_risk (signals 0 51 1 6) = ''medium''
   \<and> calculate_risk (signals 0 100 1 6) = ''medium''
   \<and> calculate_risk (signals 0 101 1 6) = ''high''
   \<and> calculate_risk (signals 0 0 0.5 6) = ''low''
   \<and> calculate_risk (signals 0 0 0.49 6) = ''medium''
   \<and> calculate_risk (signals 0 0 0.3 6) = ''medium''
   \<and> calculate_risk (signals 0 0 0.29 6) = ''high''
   \<and> calculate_risk (signals 0 0 0.4 5) = ''low''
   \<and> calculate_risk (signals 0 0 0.4 6) = ''medium''"
proof -
  have gen: "\<And>a. calculate_risk a =
     risk_level_spec
       (risk_score_spec
          (case complexity a of None \<Rightarrow> 0
           | Some c \<Rightarrow> (case complexity_score c of None \<Rightarrow> 0 | Some s \<Rightarrow> s))
          (case test_gap a of None \<Rightarrow> 1
           | Some g \<Rightarrow> (case test_coverage_ratio g of None \<Rightarrow> 1 | Some r \<Rightarrow> r))
          (case todos_dead_code a of None \<Rightarrow> 0
           | Some t \<Rightarrow> (case todos t of None \<Rightarrow> 0 | Some n \<Rightarrow> n)))"
    by (simp add: calculate_risk_def risk_level_spec_def risk_score_spec_def Let_def
        get_complexity_score_def get_test_coverage_ratio_def get_todos_def)
  show ?thesis
    by (simp add: gen) (simp add: risk_score_spec_def risk_level_spec_def)
qed

text \<open>
  C2. For every input, read field by field, the priority is the level of the sum of five
  independent contributions: 3 for more than 10 duplications, 3 for a complexity score
  above 100, 3 for a coverage ratio below 0.2, 2 for more than 5 duplications and 2 for a
  complexity score above 50; the two duplication checks and the two complexity checks
  add up when both thresholds are passed. Levels are high from 6, medium from 3, low
  below. With 11 duplications and a complexity score of 51 the duplication checks give
  3 + 2 and the complexity check 2: the priority is high, where an else-if reading
  (3 + 2) would give medium.
\<close>

theorem calculate_priority_spec:
  "calculate_priority a =
     priority_level_spec
       (priority_score_spec
          (case duplication a of None \<Rightarrow> 0 | Some d \<Rightarrow> d)
          (case complexity a of None \<Rightarrow> 0
           | Some c \<Rightarrow> (case complexity_score c of None \<Rightarrow> 0 | Some s \<Rightarrow> s))
          (case test_gap a of None \<Rightarrow> 1
           | Some g \<Rightarrow> (case test_coverage_ratio g of None \<Rightarrow> 1 | Some r \<Rightarrow> r)))
   \<and> calculate_priority (signals d c r n) = priority_level_spec (priority_score_spec d c r)
   \<and> priority_score_spec 11 51 1 = 3 + 2 + 2
   \<and> calculate_priority (signals 11 51 1 0) = ''high''
   \<and> calculate_priority (signals 11 0 1 0) = ''medium''
   \<and> calculate_priority (signals 10 0 1 0) = ''low''
   \<and> calculate_priority (signals 6 0 1 0) = ''low''
   \<and> calculate_priority (signals 6 0 0.19 0) = ''medium''
   \<and> calculate_priority (signals 5 0 0.19 0) = ''medium''
   \<and> calculate_priority (signals 11 0 0.19 0) = ''high''
   \<and> calculate_priority (signals 11 0 0.2 0) = ''medium''
   \<and> calculate_priority (signals 0 101 0.19 0) = ''high''
   \<and> calculate_priority (signals 0 101 1 0) = ''medium''
   \<and> calculate_priority (signals 0 100 1 0) = ''low''
   \<and> calculate_priority (signals 6 51 1 0) = ''medium''
   \<and> calculate_priority (signals 6 50 1 0) = ''low''"
proof -
  have gen: "\<And>a. calculate_priority a =
     priority_level_spec
       (priority_score_spec
          (case duplication a of None \<Rightarrow> 0 | Some d \<Rightarrow> d)
          (case complexity a of None \<Rightarrow> 0
           | Some c \<Rightarrow> (case complexity_score c of None \<Rightarrow> 0 | Some s \<Rightarrow> s))
          (case test_gap a of None \<Rightarrow> 1
           | Some g \<Rightarrow> (case test_coverage_ratio g of None \<Rightarrow> 1 | Some r \<Rightarrow> r)))"
    by (simp add: calculate_priority_def priority_level_spec_def priority_score_spec_def
        Let_def get_complexity_score_def get_test_coverage_ratio_def get_duplication_def)
  show ?thesis
    by (simp add: gen) (simp add: priority_score_spec_def priority_level_spec_def)
qed

text \<open>
  C3. For every input, read field by field, the estimated cost is the level of
  \<open>\<lfloor>complexity_score / 10\<rfloor> + \<lfloor>duplication / 2\<rfloor> + (2 if the coverage ratio is below 0.5)\<close>:
  high above 10, medium above 5, low otherwise. A cost of exactly 10 is medium and a cost
  of exactly 5 is low, with and without the contribution of the coverage ratio.
\<close>

theorem estimate_cost_spec:
  "estimate_cost a =
     cost_level_spec
       (cost_score_spec
          (case complexity a of None \<Rightarrow> 0
           | Some c \<Rightarrow> (case complexity_score c of None \<Rightarrow> 0 | Some s \<Rightarrow> s))
          (case duplication a of None \<Rightarrow> 0 | Some d \<Rightarrow> d)
          (case test_gap a of None \<Rightarrow> 1
           | Some g \<Rightarrow> (case test_coverage_ratio g of None \<Rightarrow> 1 | Some r \<Rightarrow> r)))
   \<and> estimate_cost (signals d c r n) = cost_level_spec (cost_score_spec c d r)
   \<and> cost_score_spec 100 0 1 = 10
   \<and> estimate_cost (signals 0 100 1 0) = ''medium''
   \<and> estimate_cost (signals 0 110 1 0) = ''high''
   \<and> cost_score_spec 50 0 1 = 5
   \<and> estimate_cost (signals 0 50 1 0) = ''low''
   \<and> estimate_cost (signals 0 60 1 0) = ''medium''
   \<and> cost_score_spec 80 0 0.49 = 10
   \<and> estimate_cost (signals 0 80 0.49 0) = ''medium''
   \<and> estimate_cost (signals 0 90 0.49 0) = ''high''
   \<and> estimate_cost (signals 0 90 0.5 0) = ''medium''
   \<and> estimate_cost (signals 0 40 0.49 0) = ''medium''
   \<and> estimate_cost (signals 0 40 0.5 0) = ''low''
   \<and> estimate_cost (signals 3 59 1 0) = ''medium''
   \<and> estimate_cost (signals 1 59 1 0) = ''low''
   \<and> estimate_cost (signals 12 0 1 0) = ''medium''
   \<and> estimate_cost (signals 22 0 1 0) = ''high''"
proof -
  have gen: "\<And>a. estimate_cost a =
     cost_level_spec
       (cost_score_spec
          (case complexity a of None \<Rightarrow> 0
           | Some c \<Rightarrow> (case complexity_score c of None \<Rightarrow> 0 | Some s \<Rightarrow> s))
          (case duplication a of None \<Rightarrow> 0 | Some d \<Rightarrow> d)
          (case test_gap a of None \<Rightarrow> 1
           | Some g \<Rightarrow> (case test_coverage_ratio g of None \<Rightarrow> 1 | Some r \<Rightarrow> r)))"
    by (simp add: estimate_cost_def cost_level_spec_def cost_score_spec_def
        Let_def get_complexity_score_def get_test_coverage_ratio_def get_duplication_def)
  show ?thesis
    by (simp add: gen) (simp add: cost_score_spec_def cost_level_spec_def)
qed

section \<open>Properties of the retrieval policy\<close>

lemma summarize_overflow_general:
  "summarize_overflow dumps ctx m =
     (if get_or 0 (total_tokens ctx) \<le> m then ctx
      else (let ds = (if length (get_list (decisions ctx)) > 2
                      then Some (take 2 (get_list (decisions ctx))) else decisions ctx)
            in ctx\<lparr>decisions := ds,
                   total_tokens := Some (estimate_tokens dumps
                      (get_list ds @ get_list (similar_items ctx)))\<rparr>))"
  by (simp add: summarize_overflow_def Let_def)

lemma estimate_tokens_sum:
  "estimate_tokens dumps xs = (\<Sum>x\<leftarrow>xs. int (length (dumps x) div 4))"
  by (induction xs) simp_all

text \<open>
  What \<^verbatim>\<open>retrieve_context\<close> returns always has its three keys, and no similar items.
\<close>

lemma retrieve_context_shape:
  "\<exists>ds n. retrieve_context dumps_spec dumps_item stored q k =
     \<lparr>decisions = Some ds, similar_items = Some [], total_tokens = Some n\<rparr>"
  by (simp add: retrieve_context_def Let_def)

text \<open>
  C5. For a retrieved context (a list of decisions, no similar items, a token estimate)
  and every token limit: when the estimate is within the limit, \<^verbatim>\<open>summarize_overflow\<close>
  returns the context unchanged; otherwise it keeps the first two decisions, in their
  order, and sets the estimate to the sum over the kept decisions of the serialised
  length divided by 4, rounded down.
\<close>

theorem summarize_overflow_spec:
  assumes "decisions ctx = Some ds" and "similar_items ctx = Some []"
    and "total_tokens ctx = Some n"
  shows "summarize_overflow dumps ctx m =
     (if n \<le> m then ctx
      else ctx\<lparr>decisions := Some (take 2 ds),
               total_tokens := Some (\<Sum>d\<leftarrow>take 2 ds. int (length (dumps d) div 4))\<rparr>)"
  using assms
  by (cases "length ds > 2")
     (simp_all add: summarize_overflow_general get_or_def get_list_def Let_def estimate_tokens_sum)

text \<open>
  Three decisions with an estimate of 12: under a limit of 5 the first two remain, with
  the estimate 3 + 2; under a limit of 12 nothing changes.
\<close>

theorem summarize_overflow_spec_witness:
  "summarize_overflow (\<lambda>d. goal_text (dec_spec d))
     \<lparr>decisions = Some [goal_decision 1 ''refactor parser'', goal_decision 2 ''add tests'',
                         goal_decision 3 ''simplify the parser module''],
      similar_items = Some [], total_tokens = Some 12\<rparr> 5 =
     \<lparr>decisions = Some [goal_decision 1 ''refactor parser'', goal_decision 2 ''add tests''],
      similar_items = Some [], total_tokens = Some 5\<rparr>
   \<and> summarize_overflow (\<lambda>d. goal_text (dec_spec d))
     \<lparr>decisions = Some [goal_decision 1 ''refactor parser'', goal_decision 2 ''add tests'',
                         goal_decision 3 ''simplify the parser module''],
      similar_items = Some [], total_tokens = Some 12\<rparr> 12 =
     \<lparr>decisions = Some [goal_decision 1 ''refactor parser'', goal_decision 2 ''add tests'',
                         goal_decision 3 ''simplify the parser module''],
      similar_items = Some [], total_tokens = Some 12\<rparr>"
  using summarize_overflow_spec [of
      "\<lparr>decisions = Some [goal_decision 1 ''refactor parser'', goal_decision 2 ''add tests'',
                         goal_decision 3 ''simplify the parser module''],
      similar_items = Some [], total_tokens = Some 12\<rparr>"
      "[goal_decision 1 ''refactor parser'', goal_decision 2 ''add tests'',
                         goal_decision 3 ''simplify the parser module'']" 12
      "\<lambda>d. goal_text (dec_spec d)" 5]
    summarize_overflow_spec [of
      "\<lparr>decisions = Some [goal_decision 1 ''refactor parser'', goal_decision 2 ''add tests'',
                         goal_decision 3 ''simplify the parser module''],
      similar_items = Some [], total_tokens = Some 12\<rparr>"
      "[goal_decision 1 ''refactor parser'', goal_decision 2 ''add tests'',
                         goal_decision 3 ''simplify the parser module'']" 12
      "\<lambda>d. goal_text (dec_spec d)" 12]
  by (simp add: goal_text_def goal_decision_def get_or_def empty_spec_dict_def)

section \<open>Properties of the enrichment engine\<close>

text \<open>
  C6. Enrichment of a specification whose goal is empty (or absent) returns it
  unchanged, whatever the store holds.
\<close>

theorem enrich_taskspec_empty_goal:
  "get_or [] (d_goal d) = [] \<Longrightarrow> enrich_taskspec dumps_spec dumps_item stored d = d"
  by (simp add: enrich_taskspec_def Let_def)

text \<open>The test specification with its goal emptied, against a store of two decisions.\<close>

theorem enrich_taskspec_empty_goal_witness:
  "enrich_taskspec goal_text (\<lambda>d. goal_text (dec_spec d))
     [goal_decision 1 ''create a parser'', goal_decision 2 ''create a function'']
     (dict_of (test_taskspec\<lparr>goal := []\<rparr>)) = dict_of (test_taskspec\<lparr>goal := []\<rparr>)"
  using enrich_taskspec_empty_goal [of "dict_of (test_taskspec\<lparr>goal := []\<rparr>)" goal_text
      "\<lambda>d. goal_text (dec_spec d)"
      "[goal_decision 1 ''create a parser'', goal_decision 2 ''create a function'']"]
  by (simp add: dict_of_def get_or_def)

section \<open>Properties of the assembler\<close>

lemma gcq_eq:
  "generate_clarifying_questions t = map snd (filter fst (clarifying_checks t))"
  by (simp add: generate_clarifying_questions_def clarifying_checks_def Let_def)

text \<open>
  \<^verbatim>\<open>str.split()\<close> gives back the words of a text made of words joined by single spaces.
\<close>

lemma split_ws_word:
  assumes "w \<noteq> []" "list_all (\<lambda>c. \<not> is_space c) w" "rest = [] \<or> is_space (hd rest)"
  shows "split_ws (w @ rest) = w # split_ws rest"
  using assms
proof (induction w)
  case Nil
  then show ?case by simp
next
  case (Cons c w)
  show ?case
  proof (cases "w = []")
    case True
    with Cons.prems show ?thesis
      by (cases rest) (auto split: list.splits)
  next
    case False
    with Cons have ih: "split_ws (w @ rest) = w # split_ws rest" by simp
    from False obtain d w' where w: "w = d # w'" by (cases w) auto
    with Cons.prems have "\<not> is_space c" "\<not> is_space d" by simp_all
    then show ?thesis using ih w by simp
  qed
qed

lemma split_ws_join:
  "list_all (\<lambda>w. w \<noteq> [] \<and> list_all (\<lambda>c. \<not> is_space c) w) ws
   \<Longrightarrow> split_ws (join '' '' ws) = ws"
proof (induction "'' ''" ws rule: join.induct)
  case 1
  then show ?case by simp
next
  case (2 x)
  then show ?case using split_ws_word [of x "[]"] by simp
next
  case (3 x y ys)
  then have "split_ws (join '' '' (y # ys)) = y # ys" by simp
  moreover have "split_ws (x @ '' '' @ join '' '' (y # ys))
                 = x # split_ws ('' '' @ join '' '' (y # ys))"
    using 3 by (intro split_ws_word) (simp_all add: is_space_def whitespace_def)
  moreover have "split_ws ('' '' @ join '' '' (y # ys)) = split_ws (join '' '' (y # ys))"
    by (simp add: is_space_def whitespace_def)
  ultimately show ?case by simp
qed

lemma gcq_mem:
  "q \<in> set (generate_clarifying_questions t) \<longleftrightarrow> (True, q) \<in> set (clarifying_checks t)"
  by (auto simp: gcq_eq image_iff)

text \<open>
  C8. On the specification with no inputs, no outputs, the goal "Create a function", no
  testing strategy, no explicit constraints, no edge cases and no libraries,
  \<^verbatim>\<open>generate_clarifying_questions\<close> returns exactly the seven questions. With a goal of
  five words, however they are spaced, the question about the goal is left out and the
  other six remain in order; on a specification that meets no condition nothing is
  asked. For every specification the result is the list of the seven checks in their
  fixed order with the checks that do not hold left out, so each question is present
  exactly when its condition holds; for a goal made of words joined by spaces the goal
  question is present exactly when there are fewer than five words.
\<close>

theorem generate_clarifying_questions_spec:
  "generate_clarifying_questions test_taskspec =
     [''What are the main inputs this code should handle?'',
      ''What outputs should this code produce?'',
      ''Can you provide more details about what this code should accomplish?'',
      ''What testing approach should be used (unit tests, integration tests, etc.)?'',
      ''Are there any specific requirements or constraints I should follow?'',
      ''What edge cases or error conditions should be considered?'',
      ''Are there any preferred or forbidden libraries/frameworks?'']
   \<and> generate_clarifying_questions
        (test_taskspec\<lparr>goal := ''  Create a'' @ [CHR 0x09] @ ''function  that''
                                  @ [CHR 0x0A] @ ''parses ''\<rparr>) =
     [''What are the main inputs this code should handle?'',
      ''What outputs should this code produce?'',
      ''What testing approach should be used (unit tests, integration tests, etc.)?'',
      ''Are there any specific requirements or constraints I should follow?'',
      ''What edge cases or error conditions should be considered?'',
      ''Are there any preferred or forbidden libraries/frameworks?'']
   \<and> generate_clarifying_questions
        \<lparr>goal = ''Parse the configuration file safely'', inputs = [''config.yaml''],
         outputs = [''settings''], constraints_explicit = [''Use type hints''],
         constraints_inferred = [], libraries_preferred = [], libraries_forbidden = [''numpy''],
         style_guides = [], naming_conventions = [], design_patterns = [],
         testing_strategy = ''pytest'', edge_cases = [''missing file''], verbosity = Normal,
         open_questions = [], risk = ''low'', priority = ''low'', estimated_cost = ''low''\<rparr>
       = []
   \<and> generate_clarifying_questions t = map snd (filter fst (clarifying_checks t))
   \<and> (''What are the main inputs this code should handle?''
          \<in> set (generate_clarifying_questions t) \<longleftrightarrow> inputs t = [])
   \<and> (''What outputs should this code produce?''
          \<in> set (generate_clarifying_questions t) \<longleftrightarrow> outputs t = [])
   \<and> (''Can you provide more details about what this code should accomplish?''
          \<in> set (generate_clarifying_questions t) \<longleftrightarrow> length (split_ws (goal t)) < 5)
   \<and> (list_all (\<lambda>w. w \<noteq> [] \<and> list_all (\<lambda>c. \<not> is_space c) w) ws \<longrightarrow>
        (''Can you provide more details about what this code should accomplish?''
           \<in> set (generate_clarifying_questions (t\<lparr>goal := join '' '' ws\<rparr>))
         \<longleftrightarrow> length ws < 5))
   \<and> (''What testing approach should be used (unit tests, integration tests, etc.)?''
          \<in> set (generate_clarifying_questions t) \<longleftrightarrow> testing_strategy t = [])
   \<and> (''Are there any specific requirements or constraints I should follow?''
          \<in> set (generate_clarifying_questions t) \<longleftrightarrow> constraints_explicit t = [])
   \<and> (''What edge cases or error conditions should be considered?''
          \<in> set (generate_clarifying_questions t) \<longleftrightarrow> edge_cases t = [])
   \<and> (''Are there any preferred or forbidden libraries/frameworks?''
          \<in> set (generate_clarifying_questions t)
        \<longleftrightarrow> libraries_preferred t = [] \<and> libraries_forbidden t = [])"
proof -
  have fields: "inputs test_taskspec = []" "outputs test_taskspec = []"
    "testing_strategy test_taskspec = []" "constraints_explicit test_taskspec = []"
    "edge_cases test_taskspec = []" "libraries_preferred test_taskspec = []"
    "libraries_forbidden test_taskspec = []"
    by (simp_all add: test_taskspec_def)
  have len3: "length (split_ws (goal test_taskspec)) < 5"
    by (simp add: test_taskspec_def is_space_def whitespace_def)
  have ex3: "generate_clarifying_questions test_taskspec =
     [''What are the main inputs this code should handle?'',
      ''What outputs should this code produce?'',
      ''Can you provide more details about what this code should accomplish?'',
      ''What testing approach should be used (unit tests, integration tests, etc.)?'',
      ''Are there any specific requirements or constraints I should follow?'',
      ''What edge cases or error conditions should be considered?'',
      ''Are there any preferred or forbidden libraries/frameworks?'']"
    by (simp add: gcq_eq clarifying_checks_def len3 fields)
  have len5: "\<not> length (split_ws (''  Create a'' @ [CHR 0x09] @ ''function  that''
                                  @ [CHR 0x0A] @ ''parses '')) < 5"
    by (simp add: is_space_def whitespace_def)
  have ex5: "generate_clarifying_questions
        (test_taskspec\<lparr>goal := ''  Create a'' @ [CHR 0x09] @ ''function  that''
                                  @ [CHR 0x0A] @ ''parses ''\<rparr>) =
     [''What are the main inputs this code should handle?'',
      ''What outputs should this code produce?'',
      ''What testing approach should be used (unit tests, integration tests, etc.)?'',
      ''Are there any specific requirements or constraints I should follow?'',
      ''What edge cases or error conditions should be considered?'',
      ''Are there any preferred or forbidden libraries/frameworks?'']"
    using len5 by (simp add: gcq_eq clarifying_checks_def fields)
  have len5': "\<not> length (split_ws ''Parse the configuration file safely'') < 5"
    by (simp add: is_space_def whitespace_def)
  have ex0: "generate_clarifying_questions
        \<lparr>goal = ''Parse the configuration file safely'', inputs = [''config.yaml''],
         outputs = [''settings''], constraints_explicit = [''Use type hints''],
         constraints_inferred = [], libraries_preferred = [], libraries_forbidden = [''numpy''],
         style_guides = [], naming_conventions = [], design_patterns = [],
         testing_strategy = ''pytest'', edge_cases = [''missing file''], verbosity = Normal,
         open_questions = [], risk = ''low'', priority = ''low'', estimated_cost = ''low''\<rparr>
       = []"
    using len5' by (simp add: gcq_eq clarifying_checks_def)
  have words: "list_all (\<lambda>w. w \<noteq> [] \<and> list_all (\<lambda>c. \<not> is_space c) w) ws \<longrightarrow>
        (''Can you provide more details about what this code should accomplish?''
           \<in> set (generate_clarifying_questions (t\<lparr>goal := join '' '' ws\<rparr>))
         \<longleftrightarrow> length ws < 5)"
    by (simp add: gcq_mem clarifying_checks_def split_ws_join)
  show ?thesis
    apply (intro conjI)
              apply (rule ex3)
             apply (rule ex5)
            apply (rule ex0)
           apply (rule gcq_eq)
          prefer 4 apply (rule words)
          apply (simp_all only: gcq_mem)
          apply (simp_all add: clarifying_checks_def)
    done
qed

text \<open>
  A goal of five words does not raise the question about the goal, a goal of four words
  does.
\<close>

theorem generate_clarifying_questions_spec_witness:
  "''Can you provide more details about what this code should accomplish?''
     \<notin> set (generate_clarifying_questions
               (test_taskspec\<lparr>goal := ''Create a function that parses''\<rparr>))
   \<and> ''Can you provide more details about what this code should accomplish?''
     \<in> set (generate_clarifying_questions
               (test_taskspec\<lparr>goal := ''Create a small function''\<rparr>))"
proof -
  have j5: "join '' '' [''Create'', ''a'', ''function'', ''that'', ''parses'']
            = ''Create a function that parses''"
    and j4: "join '' '' [''Create'', ''a'', ''small'', ''function''] = ''Create a small function''"
    by simp_all
  have w5: "list_all (\<lambda>w. w \<noteq> [] \<and> list_all (\<lambda>c. \<not> is_space c) w)
              [''Create'', ''a'', ''function'', ''that'', ''parses'']"
    and w4: "list_all (\<lambda>w. w \<noteq> [] \<and> list_all (\<lambda>c. \<not> is_space c) w)
              [''Create'', ''a'', ''small'', ''function'']"
    by (simp_all add: is_space_def whitespace_def)
  show ?thesis
    using generate_clarifying_questions_spec
        [of test_taskspec "[''Create'', ''a'', ''function'', ''that'', ''parses'']"]
      generate_clarifying_questions_spec
        [of test_taskspec "[''Create'', ''a'', ''small'', ''function'']"]
      w5 w4
    by (simp only: j5 j4) simp
qed

section \<open>Frame properties of enrichment\<close>

lemma enrich_frame:
  "d_goal (enrich_taskspec ds di st d) = d_goal d"
  "d_inputs (enrich_taskspec ds di st d) = d_inputs d"
  "d_outputs (enrich_taskspec ds di st d) = d_outputs d"
  "d_constraints_explicit (enrich_taskspec ds di st d) = d_constraints_explicit d"
  "d_libraries_preferred (enrich_taskspec ds di st d) = d_libraries_preferred d"
  "d_libraries_forbidden (enrich_taskspec ds di st d) = d_libraries_forbidden d"
  "d_style_guides (enrich_taskspec ds di st d) = d_style_guides d"
  "d_naming_conventions (enrich_taskspec ds di st d) = d_naming_conventions d"
  "d_design_patterns (enrich_taskspec ds di st d) = d_design_patterns d"
  "d_testing_strategy (enrich_taskspec ds di st d) = d_testing_strategy d"
  "d_verbosity (enrich_taskspec ds di st d) = d_verbosity d"
  "d_open_questions (enrich_taskspec ds di st d) = d_open_questions d"
  "d_risk (enrich_taskspec ds di st d) = d_risk d"
  "d_priority (enrich_taskspec ds di st d) = d_priority d"
  "d_estimated_cost (enrich_taskspec ds di st d) = d_estimated_cost d"
  by (simp_all add: enrich_taskspec_def Let_def)

lemma enrich_constraints_inferred:
  "prefix (get_list (d_constraints_inferred d))
     (get_list (d_constraints_inferred (enrich_taskspec ds di st d)))"
  by (simp add: enrich_taskspec_def Let_def get_list_def)

lemma enrich_edge_cases:
  "prefix (get_list (d_edge_cases d)) (get_list (d_edge_cases (enrich_taskspec ds di st d)))"
  by (simp add: enrich_taskspec_def Let_def get_list_def)

text \<open>
  The key \<^verbatim>\<open>examples\<close> is assigned, not extended: a dictionary that already carries
  examples loses them when new ones are found.
\<close>

lemma enrich_examples:
  "d_examples (enrich_taskspec ds di st d) =
     (if get_or [] (d_goal d) = []
           \<or> extract_examples_from_context (retrieve_context ds di st (get_or [] (d_goal d)) 5) = []
      then d_examples d
      else Some (extract_examples_from_context
                   (retrieve_context ds di st (get_or [] (d_goal d)) 5)))"
  by (simp add: enrich_taskspec_def Let_def)

text \<open>
  The test specification against a store of two decisions that share a constraint and an
  edge case: the constraint is appended as a pattern, the edge case and the examples are
  added.
\<close>

lemma enrich_taskspec_example:
  "d_constraints_inferred
     (enrich_taskspec goal_text (\<lambda>d. goal_text (dec_spec d)) [past_decision 1, past_decision 2]
        (dict_of (test_taskspec\<lparr>constraints_inferred := [''Follow google docstrings'']\<rparr>)))
     = Some [''Follow google docstrings'', ''Pattern: Use caching'']
   \<and> d_edge_cases
     (enrich_taskspec goal_text (\<lambda>d. goal_text (dec_spec d)) [past_decision 1, past_decision 2]
        (dict_of (test_taskspec\<lparr>constraints_inferred := [''Follow google docstrings'']\<rparr>)))
     = Some [''empty input'']
   \<and> d_examples
     (enrich_taskspec goal_text (\<lambda>d. goal_text (dec_spec d)) [past_decision 1, past_decision 2]
        (dict_of (test_taskspec\<lparr>constraints_inferred := [''Follow google docstrings'']\<rparr>)))
     = Some [''Similar task: create a parser'', ''Similar task: create a parser'']"
  by code_simp

text \<open>
  On the dictionary of a \<^verbatim>\<open>TaskSpec\<close>, which declares no \<^verbatim>\<open>examples\<close>, nothing is
  removed or overwritten: every other field comes back with the value it had, and the
  inferred constraints and the edge cases are only extended.
\<close>

lemma enrich_taskspec_frame:
  "d_goal (enrich_taskspec dumps_spec dumps_item stored (dict_of t)) = Some (goal t)
   \<and> d_inputs (enrich_taskspec dumps_spec dumps_item stored (dict_of t)) = Some (inputs t)
   \<and> d_outputs (enrich_taskspec dumps_spec dumps_item stored (dict_of t)) = Some (outputs t)
   \<and> d_constraints_explicit (enrich_taskspec dumps_spec dumps_item stored (dict_of t))
       = Some (constraints_explicit t)
   \<and> d_libraries_preferred (enrich_taskspec dumps_spec dumps_item stored (dict_of t))
       = Some (libraries_preferred t)
   \<and> d_libraries_forbidden (enrich_taskspec dumps_spec dumps_item stored (dict_of t))
       = Some (libraries_forbidden t)
   \<and> d_style_guides (enrich_taskspec dumps_spec dumps_item stored (dict_of t))
       = Some (style_guides t)
   \<and> d_naming_conventions (enrich_taskspec dumps_spec dumps_item stored (dict_of t))
       = Some (naming_conventions t)
   \<and> d_design_patterns (enrich_taskspec dumps_spec dumps_item stored (dict_of t))
       = Some (design_patterns t)
   \<and> d_testing_strategy (enrich_taskspec dumps_spec dumps_item stored (dict_of t))
       = Some (testing_strategy t)
   \<and> d_verbosity (enrich_taskspec dumps_spec dumps_item stored (dict_of t))
       = Some (verbosity_str (verbosity t))
   \<and> d_open_questions (enrich_taskspec dumps_spec dumps_item stored (dict_of t))
       = Some (open_questions t)
   \<and> d_risk (enrich_taskspec dumps_spec dumps_item stored (dict_of t)) = Some (risk t)
   \<and> d_priority (enrich_taskspec dumps_spec dumps_item stored (dict_of t)) = Some (priority t)
   \<and> d_estimated_cost (enrich_taskspec dumps_spec dumps_item stored (dict_of t))
       = Some (estimated_cost t)
   \<and> prefix (constraints_inferred t)
        (get_list (d_constraints_inferred
           (enrich_taskspec dumps_spec dumps_item stored (dict_of t))))
   \<and> prefix (edge_cases t)
        (get_list (d_edge_cases (enrich_taskspec dumps_spec dumps_item stored (dict_of t))))
   \<and> prefix (get_list (d_examples (dict_of t)))
        (get_list (d_examples (enrich_taskspec dumps_spec dumps_item stored (dict_of t))))"
proof -
  have ci: "get_list (d_constraints_inferred (dict_of t)) = constraints_inferred t"
    and ec: "get_list (d_edge_cases (dict_of t)) = edge_cases t"
    and ex: "get_list (d_examples (dict_of t)) = []"
    by (simp_all add: dict_of_def get_list_def)
  show ?thesis
    using enrich_constraints_inferred [of "dict_of t" dumps_spec dumps_item stored]
      enrich_edge_cases [of "dict_of t" dumps_spec dumps_item stored]
    by (simp add: enrich_frame ci ec ex) (simp add: dict_of_def)
qed

text \<open>
  C7. Enrichment should remove and overwrite nothing and only append to
  \<^verbatim>\<open>constraints_inferred\<close>, \<^verbatim>\<open>edge_cases\<close> and \<^verbatim>\<open>examples\<close>. The code appends to the
  first two and assigns the third. On the test specification as a dictionary that
  already carries the example "Similar task: write a lexer", against a store of two
  matching decisions, the result holds the two new examples only: the value before is
  not a prefix of the value after.
\<close>

theorem enrich_taskspec_examples_overwritten:
  "d_examples
     (enrich_taskspec goal_text (\<lambda>d. goal_text (dec_spec d)) [past_decision 1, past_decision 2]
        ((dict_of test_taskspec)\<lparr>d_examples := Some [''Similar task: write a lexer'']\<rparr>))
     = Some [''Similar task: create a parser'', ''Similar task: create a parser'']
   \<and> \<not> prefix [''Similar task: write a lexer'']
         (get_list (d_examples
            (enrich_taskspec goal_text (\<lambda>d. goal_text (dec_spec d))
               [past_decision 1, past_decision 2]
               ((dict_of test_taskspec)\<lparr>d_examples := Some [''Similar task: write a lexer'']\<rparr>))))"
  by code_simp

section \<open>The enumerated fields along the pipeline\<close>

lemma parse_verbosity_str: "parse_verbosity (verbosity_str v) = Some v"
  by (cases v) (simp_all add: parse_verbosity_def)

lemma taskspec_of_enrich_dict:
  "taskspec_of (enrich_taskspec ds di st (dict_of t)) =
     Some (t\<lparr>constraints_inferred :=
                get_list (d_constraints_inferred (enrich_taskspec ds di st (dict_of t))),
             edge_cases := get_list (d_edge_cases (enrich_taskspec ds di st (dict_of t)))\<rparr>)"
proof -
  define e where "e = enrich_taskspec ds di st (dict_of t)"
  have f: "d_goal e = Some (goal t)" "d_inputs e = Some (inputs t)"
    "d_outputs e = Some (outputs t)"
    "d_constraints_explicit e = Some (constraints_explicit t)"
    "d_libraries_preferred e = Some (libraries_preferred t)"
    "d_libraries_forbidden e = Some (libraries_forbidden t)"
    "d_style_guides e = Some (style_guides t)"
    "d_naming_conventions e = Some (naming_conventions t)"
    "d_design_patterns e = Some (design_patterns t)"
    "d_testing_strategy e = Some (testing_strategy t)"
    "d_verbosity e = Some (verbosity_str (verbosity t))"
    "d_open_questions e = Some (open_questions t)"
    "d_risk e = Some (risk t)" "d_priority e = Some (priority t)"
    "d_estimated_cost e = Some (estimated_cost t)"
    unfolding e_def by (simp_all add: enrich_frame dict_of_def)
  have "taskspec_of e =
     Some (t\<lparr>constraints_inferred := get_list (d_constraints_inferred e),
             edge_cases := get_list (d_edge_cases e)\<rparr>)"
    by (simp add: taskspec_of_def f get_list_def get_or_def parse_verbosity_str)
  then show ?thesis by (simp add: e_def)
qed

lemma calculate_risk_level: "calculate_risk a \<in> set levels"
  by (simp add: calculate_risk_def levels_def Let_def)

lemma calculate_priority_level: "calculate_priority a \<in> set levels"
  by (simp add: calculate_priority_def levels_def Let_def)

lemma estimate_cost_level: "estimate_cost a \<in> set levels"
  by (simp add: estimate_cost_def levels_def Let_def)

lemma cluster_enum_fields:
  "\<exists>t. cluster_signals_to_taskspec profile list_set dumps_spec dumps_item stored a = Some t
       \<and> verbosity t = Normal \<and> risk t = calculate_risk a
       \<and> priority t = calculate_priority a \<and> estimated_cost t = estimate_cost a"
  by (simp add: cluster_signals_to_taskspec_def Let_def split_beta taskspec_of_enrich_dict)

lemma apply_answer_frame:
  "verbosity (apply_answer t qa) = verbosity t"
  "risk (apply_answer t qa) = risk t"
  "priority (apply_answer t qa) = priority t"
  "estimated_cost (apply_answer t qa) = estimated_cost t"
  by (simp_all add: apply_answer_def Let_def)

lemma enhance_frame:
  "verbosity (enhance_taskspec_with_answers t answers) = verbosity t
   \<and> risk (enhance_taskspec_with_answers t answers) = risk t
   \<and> priority (enhance_taskspec_with_answers t answers) = priority t
   \<and> estimated_cost (enhance_taskspec_with_answers t answers) = estimated_cost t"
  unfolding enhance_taskspec_with_answers_def
  by (induction answers arbitrary: t) (simp_all add: apply_answer_frame)

text \<open>
  C4, as stated, fails: \<^verbatim>\<open>risk\<close> is declared \<^verbatim>\<open>str\<close>, so a specification whose risk
  is the free text "urgent" is a valid \<^verbatim>\<open>TaskSpec\<close>, and merging an answer into it
  returns a specification whose risk is still "urgent".
\<close>

theorem enum_fields_counterexample:
  "\<not> enum_fields_ok
       (enhance_taskspec_with_answers (test_taskspec\<lparr>risk := ''urgent''\<rparr>)
          [(''What outputs should this code produce?'', ''result object, error message'')])"
  using enhance_frame [of "test_taskspec\<lparr>risk := ''urgent''\<rparr>"
      "[(''What outputs should this code produce?'', ''result object, error message'')]"]
  by (simp add: enum_fields_ok_def levels_def)

text \<open>
  C4, amended. The specification that assembly from analysis signals returns always
  exists and has its verbosity, risk, priority and estimated cost among their
  enumerated values; enrichment and answer-merging return these four fields as they
  received them.
\<close>

theorem enum_fields_pipeline:
  "(\<exists>t. cluster_signals_to_taskspec profile list_set dumps_spec dumps_item stored a = Some t
        \<and> enum_fields_ok t)
   \<and> d_verbosity (enrich_taskspec dumps_spec dumps_item stored d) = d_verbosity d
   \<and> d_risk (enrich_taskspec dumps_spec dumps_item stored d) = d_risk d
   \<and> d_priority (enrich_taskspec dumps_spec dumps_item stored d) = d_priority d
   \<and> d_estimated_cost (enrich_taskspec dumps_spec dumps_item stored d) = d_estimated_cost d
   \<and> verbosity (enhance_taskspec_with_answers t answers) = verbosity t
   \<and> risk (enhance_taskspec_with_answers t answers) = risk t
   \<and> priority (enhance_taskspec_with_answers t answers) = priority t
   \<and> estimated_cost (enhance_taskspec_with_answers t answers) = estimated_cost t"
proof -
  obtain t0 where t0: "cluster_signals_to_taskspec profile list_set dumps_spec dumps_item stored a = Some t0"
    "verbosity t0 = Normal" "risk t0 = calculate_risk a"
    "priority t0 = calculate_priority a" "estimated_cost t0 = estimate_cost a"
    using cluster_enum_fields by blast
  have "enum_fields_ok t0"
    by (simp add: enum_fields_ok_def t0 calculate_risk_level calculate_priority_level
        estimate_cost_level)
  with t0(1) have "\<exists>t. cluster_signals_to_taskspec profile list_set dumps_spec dumps_item stored a = Some t
        \<and> enum_fields_ok t" by blast
  then show ?thesis
    using enhance_frame [of t answers] by (simp add: enrich_frame)
qed

section \<open>Properties of the constraint parser\<close>

text \<open>A match of any pattern of the list that is not a stop-word is collected.\<close>

lemma collect_member:
  assumes "p \<in> set ps" "x \<in> set (findall p s)" "x \<notin> set stop_words" "strip x = x"
  shows "x \<in> set (collect_matches ps s)"
proof -
  have "strip x \<in> set (map strip (filter (\<lambda>x. x \<notin> set stop_words) (findall p s)))"
    using assms(2,3) by simp
  then show ?thesis using assms(1,4) by (auto simp: collect_matches_def)
qed

text \<open>
  A search passes over a stretch of text when every match that starts in the stretch also
  ends in it: the captures found after the stretch are found in the whole text.
\<close>

lemma findall_from_pass:
  assumes "\<forall>u v cap rest. pre = u @ v \<longrightarrow> v \<noteq> [] \<longrightarrow> m (v @ R) = Some (cap, rest)
             \<longrightarrow> length R \<le> length rest"
    and "k \<le> length pre"
  shows "\<exists>caps. findall_from m k (pre @ R) = caps @ findall_from m 0 R"
  using assms
proof (induction pre arbitrary: k)
  case Nil
  then show ?case by simp
next
  case (Cons c cs)
  have early: "\<forall>u v cap rest. cs = u @ v \<longrightarrow> v \<noteq> [] \<longrightarrow> m (v @ R) = Some (cap, rest)
             \<longrightarrow> length R \<le> length rest"
  proof (intro allI impI)
    fix u v cap rest
    assume "cs = u @ v" "v \<noteq> []" "m (v @ R) = Some (cap, rest)"
    moreover from this have "c # cs = (c # u) @ v" by simp
    ultimately show "length R \<le> length rest" using Cons.prems(1) by blast
  qed
  show ?case
  proof (cases k)
    case (Suc k')
    then have "k' \<le> length cs" using Cons.prems(2) by simp
    from Cons.IH [OF early this] show ?thesis using Suc by simp
  next
    case 0
    show ?thesis
    proof (cases "m (c # cs @ R)")
      case None
      have "0 \<le> length cs" by simp
      from Cons.IH [OF early this] show ?thesis using 0 None by simp
    next
      case (Some a)
      obtain cap rest where a: "a = (cap, rest)" by (cases a)
      have "c # cs = [] @ (c # cs)" "c # cs \<noteq> []" "m ((c # cs) @ R) = Some (cap, rest)"
        using Some a by simp_all
      then have "length R \<le> length rest" using Cons.prems(1) by blast
      then have "length (cs @ R) - length rest \<le> length cs" by simp
      from Cons.IH [OF early this] obtain caps where
        "findall_from m (length (cs @ R) - length rest) (cs @ R) = caps @ findall_from m 0 R"
        by blast
      then have "findall_from m k ((c # cs) @ R) = (cap # caps) @ findall_from m 0 R"
        using 0 Some a by simp
      then show ?thesis by blast
    qed
  qed
qed

text \<open>
  A match of a keyword phrase that starts before a name and runs into it makes the text
  before the name an unfinished phrase of that keyword.
\<close>

lemma dropWhile_append_stop:
  "R \<noteq> [] \<Longrightarrow> \<not> P (hd R) \<Longrightarrow> dropWhile P (xs @ R) = dropWhile P xs @ R"
  by (induction xs) (simp_all, cases R, simp_all)

lemma dropWhile_append_inner:
  "\<not> list_all P xs \<Longrightarrow> dropWhile P (xs @ ys) = dropWhile P xs @ ys"
  by (induction xs) simp_all

lemma match_spaces_append:
  assumes "R \<noteq> []" "\<not> is_space (hd R)" "match_spaces (x @ R) = Some r"
  shows "\<exists>c cs. x = c # cs \<and> is_space c \<and> r = dropWhile is_space cs @ R"
proof (cases x)
  case Nil
  with assms show ?thesis by (cases R) (simp_all add: match_spaces_def)
next
  case (Cons c cs)
  with assms show ?thesis
    by (auto simp: match_spaces_def dropWhile_append_stop split: if_splits)
qed

lemma match_token_append:
  assumes "match_token (x @ R) = Some (cap, rest)" "length rest < length R"
  shows "list_all is_tok x"
proof (rule ccontr)
  assume "\<not> list_all is_tok x"
  then have "dropWhile is_tok (x @ R) = dropWhile is_tok x @ R"
    by (rule dropWhile_append_inner)
  moreover have "rest = dropWhile is_tok (x @ R)"
    using assms(1) by (auto simp: match_token_def Let_def split: if_splits)
  ultimately show False using assms(2) by simp
qed

lemma phrase_match_open:
  assumes m: "Option.bind (match_spaces (v1 @ R)) (opt_word_then_token opt) = Some (cap, rest)"
    and R: "R \<noteq> []" "\<not> is_space (hd R)"
    and opt: "\<And>w. prefix opt (w @ R) \<Longrightarrow> prefix opt w"
    and short: "length rest < length R"
  shows "spaces_then
          (\<lambda>r. list_all is_tok r
                \<or> (prefix opt r \<and> spaces_then (list_all is_tok) (drop (length opt) r))) v1"
proof -
  from m obtain r1 where r1: "match_spaces (v1 @ R) = Some r1"
    and o: "opt_word_then_token opt r1 = Some (cap, rest)"
    by (auto simp: bind_eq_Some_conv)
  from match_spaces_append [OF R r1] obtain c cs where
    v1: "v1 = c # cs" "is_space c" "r1 = dropWhile is_space cs @ R" by blast
  define v2 where "v2 = dropWhile is_space cs"
  have r1': "r1 = v2 @ R" by (simp add: v1 v2_def)
  have "list_all is_tok v2
        \<or> (prefix opt v2 \<and> spaces_then (list_all is_tok) (drop (length opt) v2))"
  proof (cases "word_then_token opt (v2 @ R)")
    case None
    then have "match_token (v2 @ R) = Some (cap, rest)"
      using o by (simp add: opt_word_then_token_def r1')
    then show ?thesis using match_token_append short by blast
  next
    case (Some a)
    then have w: "word_then_token opt (v2 @ R) = Some (cap, rest)"
      using o by (simp add: opt_word_then_token_def r1')
    then have p: "prefix opt (v2 @ R)"
      by (auto simp: word_then_token_def match_lit_def bind_eq_Some_conv split: if_splits)
    then have pv: "prefix opt v2" by (rule opt)
    then have d: "drop (length opt) (v2 @ R) = drop (length opt) v2 @ R"
      by (auto simp: prefix_def)
    from w p have "Option.bind (match_spaces (drop (length opt) (v2 @ R))) match_token
                   = Some (cap, rest)"
      by (simp add: word_then_token_def match_lit_def del: drop_append)
    then have "Option.bind (match_spaces (drop (length opt) v2 @ R)) match_token
                   = Some (cap, rest)"
      by (simp only: d)
    then obtain r3 where r3: "match_spaces (drop (length opt) v2 @ R) = Some r3"
      and t: "match_token r3 = Some (cap, rest)"
      by (auto simp: bind_eq_Some_conv)
    from match_spaces_append [OF R r3] obtain c3 cs3 where
      v3: "drop (length opt) v2 = c3 # cs3" "is_space c3" "r3 = dropWhile is_space cs3 @ R"
      by blast
    have "list_all is_tok (dropWhile is_space cs3)"
      using t v3(3) match_token_append short by blast
    then have "spaces_then (list_all is_tok) (drop (length opt) v2)"
      by (simp add: spaces_then_def v3)
    with pv show ?thesis by simp
  qed
  then show ?thesis by (simp add: spaces_then_def v1 v2_def)
qed

lemma keyword_match_open:
  assumes p: "prefix kw v"
    and m: "Option.bind (match_spaces (drop (length kw) (v @ R))) (opt_word_then_token opt)
            = Some (cap, rest)"
    and R: "R \<noteq> []" "\<not> is_space (hd R)"
    and opt: "\<And>w. prefix opt (w @ R) \<Longrightarrow> prefix opt w"
    and short: "length rest < length R"
  shows "open_phrase kw opt v"
proof -
  from p have "drop (length kw) (v @ R) = drop (length kw) v @ R"
    by (auto simp: prefix_def)
  with m have "Option.bind (match_spaces (drop (length kw) v @ R)) (opt_word_then_token opt)
            = Some (cap, rest)" by (simp only:)
  from phrase_match_open [OF this R opt short] p show ?thesis
    by (simp add: open_phrase_def)
qed

lemma any_suffix_here: "P v \<Longrightarrow> any_suffix P v"
  by (cases v) simp_all

lemma any_suffix_append: "any_suffix P v \<Longrightarrow> any_suffix P (u @ v)"
  by (induction u) simp_all

lemma not_governed_suffix:
  "\<not> governed kw opt pre \<Longrightarrow> pre = u @ v \<Longrightarrow> \<not> open_phrase kw opt v"
  using any_suffix_append [of "open_phrase kw opt" v u] any_suffix_here [of "open_phrase kw opt" v]
  by (auto simp: governed_def)

lemma avoid_avoid_overlap:
  "v \<noteq> [] \<Longrightarrow> prefix ''avoid'' (v @ ''avoid numpy'' @ post) \<Longrightarrow> prefix ''avoid'' v"
  by (auto simp: prefix_append Cons_eq_append_conv)

lemma using_avoid_overlap:
  "prefix ''using'' (w @ ''avoid numpy'' @ post) \<Longrightarrow> prefix ''using'' w"
  by (auto simp: prefix_append Cons_eq_append_conv)

lemma prefer_prefer_overlap:
  "v \<noteq> [] \<Longrightarrow> prefix ''prefer'' (v @ ''prefer pandas'' @ post) \<Longrightarrow> prefix ''prefer'' v"
  by (auto simp: prefix_append Cons_eq_append_conv)

lemma use_prefer_overlap:
  "v \<noteq> [] \<Longrightarrow> prefix ''use'' (v @ ''prefer pandas'' @ post) \<Longrightarrow> prefix ''use'' v"
  by (auto simp: prefix_append Cons_eq_append_conv)

lemma the_prefer_overlap:
  "prefix ''the'' (w @ ''prefer pandas'' @ post) \<Longrightarrow> prefix ''the'' w"
  by (auto simp: prefix_append Cons_eq_append_conv)

lemma phrase_heads:
  "''avoid numpy'' @ post \<noteq> []" "\<not> is_space (hd (''avoid numpy'' @ post))"
  "''prefer pandas'' @ post \<noteq> []" "\<not> is_space (hd (''prefer pandas'' @ post))"
  by (simp_all add: is_space_def whitespace_def)

lemma avoid_using_early:
  assumes "v \<noteq> []" "avoid_using (v @ ''avoid numpy'' @ post) = Some (cap, rest)"
    and "length rest < length (''avoid numpy'' @ post)"
  shows "open_phrase ''avoid'' ''using'' v"
proof -
  from assms(2) have p: "prefix ''avoid'' (v @ ''avoid numpy'' @ post)"
    by (auto simp: avoid_using_def match_lit_def bind_eq_Some_conv split: if_splits)
  then have pv: "prefix ''avoid'' v" using avoid_avoid_overlap assms(1) by blast
  from assms(2) p have
    "Option.bind (match_spaces (drop (length ''avoid'') (v @ ''avoid numpy'' @ post)))
       (opt_word_then_token ''using'') = Some (cap, rest)"
    by (simp add: avoid_using_def match_lit_def)
  from keyword_match_open [OF pv this phrase_heads(1,2) using_avoid_overlap assms(3)]
  show ?thesis .
qed

lemma prefer_use_early:
  assumes "v \<noteq> []" "prefer_use (v @ ''prefer pandas'' @ post) = Some (cap, rest)"
    and "length rest < length (''prefer pandas'' @ post)"
  shows "open_phrase ''prefer'' ''the'' v \<or> open_phrase ''use'' ''the'' v"
proof (cases "prefix ''prefer'' (v @ ''prefer pandas'' @ post)")
  case True
  then have pv: "prefix ''prefer'' v" using prefer_prefer_overlap assms(1) by blast
  from assms(2) True have
    "Option.bind (match_spaces (drop (length ''prefer'') (v @ ''prefer pandas'' @ post)))
       (opt_word_then_token ''the'') = Some (cap, rest)"
    by (simp add: prefer_use_def match_alt_def match_lit_def)
  from keyword_match_open [OF pv this phrase_heads(3,4) the_prefer_overlap assms(3)]
  show ?thesis by simp
next
  case False
  with assms(2) have u: "prefix ''use'' (v @ ''prefer pandas'' @ post)"
    by (auto simp: prefer_use_def match_alt_def match_lit_def bind_eq_Some_conv
        split: if_splits)
  then have pv: "prefix ''use'' v" using use_prefer_overlap assms(1) by blast
  from assms(2) False u have
    "Option.bind (match_spaces (drop (length ''use'') (v @ ''prefer pandas'' @ post)))
       (opt_word_then_token ''the'') = Some (cap, rest)"
    by (simp add: prefer_use_def match_alt_def match_lit_def)
  from keyword_match_open [OF pv this phrase_heads(3,4) the_prefer_overlap assms(3)]
  show ?thesis by simp
qed

lemma delimited_takeWhile: "delimited post \<Longrightarrow> takeWhile is_tok post = []"
  by (cases post) (simp_all add: delimited_def)

lemma delimited_dropWhile: "delimited post \<Longrightarrow> dropWhile is_tok post = post"
  by (cases post) (simp_all add: delimited_def)

lemma is_space_simps:
  "is_space CHR '' ''" "\<not> is_space CHR ''n''" "\<not> is_space CHR ''p''"
  by (simp_all add: is_space_def whitespace_def)

lemma is_tok_letters:
  "is_tok CHR ''n''" "is_tok CHR ''u''" "is_tok CHR ''m''" "is_tok CHR ''p''"
  "is_tok CHR ''y''" "is_tok CHR ''a''" "is_tok CHR ''d''" "is_tok CHR ''s''"
  by (simp_all add: is_tok_def is_space_def whitespace_def)

lemma avoid_using_numpy:
  "delimited post \<Longrightarrow> avoid_using (''avoid numpy'' @ post) = Some (''numpy'', post)"
  by (simp add: avoid_using_def match_lit_def match_spaces_def opt_word_then_token_def
      word_then_token_def match_token_def is_tok_letters is_space_simps
      delimited_takeWhile delimited_dropWhile)

lemma prefer_use_pandas:
  "delimited post \<Longrightarrow> prefer_use (''prefer pandas'' @ post) = Some (''pandas'', post)"
  by (simp add: prefer_use_def match_alt_def match_lit_def match_spaces_def
      opt_word_then_token_def word_then_token_def match_token_def is_tok_letters
      is_space_simps delimited_takeWhile delimited_dropWhile)

lemma findall_avoid_numpy:
  assumes "\<not> governed ''avoid'' ''using'' pre" "delimited post"
  shows "''numpy'' \<in> set (findall avoid_using (pre @ ''avoid numpy'' @ post))"
proof -
  have "\<forall>u v cap rest. pre = u @ v \<longrightarrow> v \<noteq> []
          \<longrightarrow> avoid_using (v @ ''avoid numpy'' @ post) = Some (cap, rest)
          \<longrightarrow> length (''avoid numpy'' @ post) \<le> length rest"
  proof (intro allI impI)
    fix u v cap rest
    assume uv: "pre = u @ v" "v \<noteq> []"
      and m: "avoid_using (v @ ''avoid numpy'' @ post) = Some (cap, rest)"
    show "length (''avoid numpy'' @ post) \<le> length rest"
    proof (rule ccontr)
      assume "\<not> length (''avoid numpy'' @ post) \<le> length rest"
      then have "length rest < length (''avoid numpy'' @ post)" by simp
      from avoid_using_early [OF uv(2) m this] not_governed_suffix [OF assms(1) uv(1)]
      show False by blast
    qed
  qed
  from findall_from_pass [OF this, of 0] obtain caps where
    "findall_from avoid_using 0 (pre @ ''avoid numpy'' @ post)
       = caps @ findall_from avoid_using 0 (''avoid numpy'' @ post)" by auto
  moreover have "''numpy'' \<in> set (findall_from avoid_using 0 (''avoid numpy'' @ post))"
    using avoid_using_numpy [OF assms(2)] by simp
  ultimately show ?thesis by (simp add: findall_def)
qed

lemma findall_prefer_pandas:
  assumes "\<not> governed ''prefer'' ''the'' pre" "\<not> governed ''use'' ''the'' pre"
    "delimited post"
  shows "''pandas'' \<in> set (findall prefer_use (pre @ ''prefer pandas'' @ post))"
proof -
  have "\<forall>u v cap rest. pre = u @ v \<longrightarrow> v \<noteq> []
          \<longrightarrow> prefer_use (v @ ''prefer pandas'' @ post) = Some (cap, rest)
          \<longrightarrow> length (''prefer pandas'' @ post) \<le> length rest"
  proof (intro allI impI)
    fix u v cap rest
    assume uv: "pre = u @ v" "v \<noteq> []"
      and m: "prefer_use (v @ ''prefer pandas'' @ post) = Some (cap, rest)"
    show "length (''prefer pandas'' @ post) \<le> length rest"
    proof (rule ccontr)
      assume "\<not> length (''prefer pandas'' @ post) \<le> length rest"
      then have "length rest < length (''prefer pandas'' @ post)" by simp
      from prefer_use_early [OF uv(2) m this] not_governed_suffix [OF assms(1) uv(1)]
        not_governed_suffix [OF assms(2) uv(1)]
      show False by blast
    qed
  qed
  from findall_from_pass [OF this, of 0] obtain caps where
    "findall_from prefer_use 0 (pre @ ''prefer pandas'' @ post)
       = caps @ findall_from prefer_use 0 (''prefer pandas'' @ post)" by auto
  moreover have "''pandas'' \<in> set (findall_from prefer_use 0 (''prefer pandas'' @ post))"
    using prefer_use_pandas [OF assms(3)] by simp
  ultimately show ?thesis by (simp add: findall_def)
qed

lemma strip_numpy: "strip ''numpy'' = ''numpy''" "strip ''pandas'' = ''pandas''"
  by (simp_all add: strip_def is_space_def whitespace_def)

text \<open>
  C9, amended. When the lower-cased prompt contains "avoid numpy" and "prefer pandas",
  each name followed by the end of the text, whitespace, a comma or a period, and
  neither phrase is itself the object of an unfinished earlier phrase (the text before
  "avoid numpy" does not end in "avoid" and whitespace, optionally "using" and
  whitespace, and characters of a name; likewise "prefer" or "use", optionally "the",
  before "prefer pandas"), then "numpy" is among the forbidden libraries and "pandas"
  among the preferred ones.
\<close>

theorem parse_numpy_pandas:
  assumes "lower p = pre @ ''avoid numpy'' @ post" "delimited post"
      "\<not> governed ''avoid'' ''using'' pre"
    and "lower p = pre' @ ''prefer pandas'' @ post'" "delimited post'"
      "\<not> governed ''prefer'' ''the'' pre'" "\<not> governed ''use'' ''the'' pre'"
  shows "''numpy'' \<in> set (parsed_libraries_forbidden (parse_explicit_constraints p))
       \<and> ''pandas'' \<in> set (parsed_libraries_preferred (parse_explicit_constraints p))"
proof -
  have "''numpy'' \<in> set (findall avoid_using (lower p))"
    unfolding assms(1) by (rule findall_avoid_numpy [OF assms(3,2)])
  then have f: "''numpy'' \<in> set (collect_matches avoid_patterns (lower p))"
    by (intro collect_member [of avoid_using])
       (simp_all add: avoid_patterns_def stop_words_def strip_numpy)
  have "''pandas'' \<in> set (findall prefer_use (lower p))"
    unfolding assms(4) by (rule findall_prefer_pandas [OF assms(6,7,5)])
  then have g: "''pandas'' \<in> set (collect_matches prefer_patterns (lower p))"
    by (intro collect_member [of prefer_use])
       (simp_all add: prefer_patterns_def stop_words_def strip_numpy)
  show ?thesis using f g by (simp add: parse_explicit_constraints_def Let_def)
qed

text \<open>
  The prompt "For the user service: avoid numpy and prefer pandas" meets the conditions,
  although "use" occurs in "user" before both phrases.
\<close>

theorem parse_numpy_pandas_witness:
  "''numpy'' \<in> set (parsed_libraries_forbidden
        (parse_explicit_constraints ''For the user service: avoid numpy and prefer pandas''))
   \<and> ''pandas'' \<in> set (parsed_libraries_preferred
        (parse_explicit_constraints ''For the user service: avoid numpy and prefer pandas''))"
proof -
  have l: "lower ''For the user service: avoid numpy and prefer pandas''
             = ''for the user service: '' @ ''avoid numpy'' @ '' and prefer pandas''"
    "lower ''For the user service: avoid numpy and prefer pandas''
             = ''for the user service: avoid numpy and '' @ ''prefer pandas'' @ []"
    by code_simp+
  have d: "delimited '' and prefer pandas''" "delimited []"
    by (simp_all add: delimited_def is_tok_def is_space_def whitespace_def)
  have g: "\<not> governed ''avoid'' ''using'' ''for the user service: ''"
    "\<not> governed ''prefer'' ''the'' ''for the user service: avoid numpy and ''"
    "\<not> governed ''use'' ''the'' ''for the user service: avoid numpy and ''"
    by code_simp+
  show ?thesis
    using parse_numpy_pandas [OF l(1) d(1) g(1) l(2) d(2) g(2,3)] .
qed

text \<open>
  Both conditions on the text before a phrase are needed: after "avoid " the phrase
  "avoid numpy" is captured as the name "avoid", and after "because " the word "prefer"
  is captured as the name that follows "use".
\<close>

lemma parse_governed_examples:
  "''numpy'' \<notin> set (parsed_libraries_forbidden
        (parse_explicit_constraints ''avoid avoid numpy and prefer pandas''))
   \<and> governed ''avoid'' ''using'' ''avoid ''
   \<and> ''pandas'' \<notin> set (parsed_libraries_preferred
        (parse_explicit_constraints ''avoid numpy because prefer pandas''))
   \<and> governed ''use'' ''the'' ''avoid numpy because ''"
  by code_simp

text \<open>
  C9, as stated, fails: the prompt below contains both phrases, but the name captured
  after "avoid" is the whole token "numpy-style".
\<close>

theorem parse_numpy_pandas_counterexample:
  "contains ''avoid numpy'' ''avoid numpy-style loops and prefer pandas''
   \<and> contains ''prefer pandas'' ''avoid numpy-style loops and prefer pandas''
   \<and> ''numpy'' \<notin> set (parsed_libraries_forbidden
         (parse_explicit_constraints ''avoid numpy-style loops and prefer pandas''))"
  by code_simp

text \<open>
  The prompt of the repository's own test, "avoids using numpy and prefers pandas": the
  words "avoids" and "prefers" are not followed by whitespace after "avoid" and "prefer",
  so nothing is forbidden and "using numpy" makes numpy preferred.
\<close>

lemma parse_test_prompt:
  "parsed_libraries_forbidden
     (parse_explicit_constraints
        ''Create a function that avoids using numpy and prefers pandas'') = []
   \<and> parsed_libraries_preferred
     (parse_explicit_constraints
        ''Create a function that avoids using numpy and prefers pandas'') = [''numpy'']"
  by code_simp

text \<open>Lower-casing keeps a character out of the delimiters.\<close>

lemma is_tok_lower_char: "is_tok c \<Longrightarrow> is_tok (lower_char c)"
proof (cases "lower_char c = c")
  case True
  then show "is_tok c \<Longrightarrow> is_tok (lower_char c)" by simp
next
  case False
  define n where "n = (of_char c :: nat)"
  from False have r: "(65 \<le> n \<and> n \<le> 90) \<or> (192 \<le> n \<and> n \<le> 214) \<or> (216 \<le> n \<and> n \<le> 222)"
    and l: "lower_char c = char_of (n + 32)"
    by (auto simp: lower_char_def Let_def n_def split: if_splits)
  have "(n + 32) mod 256 = n + 32" using r by auto
  then have o: "(of_char (lower_char c) :: nat) = n + 32" by (simp add: l)
  have "lower_char c \<notin> set whitespace \<and> lower_char c \<noteq> CHR '','' \<and> lower_char c \<noteq> CHR ''.''"
    using r o by (auto simp: whitespace_def)
  then show "is_tok (lower_char c)" by (simp add: is_tok_def is_space_def)
qed

lemma list_all_is_tok_lower: "list_all is_tok x \<Longrightarrow> list_all is_tok (lower x)"
  by (induction x) (simp_all add: lower_def is_tok_lower_char)

lemma tok_not_space: "is_tok c \<Longrightarrow> \<not> is_space c"
  by (simp add: is_tok_def)

lemma tok_dropWhile_space: "list_all is_tok y \<Longrightarrow> dropWhile is_space y = y"
  by (cases y) (simp_all add: tok_not_space)

lemma tok_takeWhile: "list_all is_tok y \<Longrightarrow> takeWhile is_tok y = y"
  by (induction y) simp_all

lemma tok_dropWhile: "list_all is_tok y \<Longrightarrow> dropWhile is_tok y = []"
  by (induction y) simp_all

lemma tok_strip: "list_all is_tok y \<Longrightarrow> strip y = y"
  by (simp add: strip_def tok_dropWhile_space)

lemma tok_match_token: "y \<noteq> [] \<Longrightarrow> list_all is_tok y \<Longrightarrow> match_token y = Some (y, [])"
  by (simp add: match_token_def tok_takeWhile tok_dropWhile)

lemma tok_match_spaces_drop: "list_all is_tok y \<Longrightarrow> match_spaces (drop n y) = None"
proof -
  assume "list_all is_tok y"
  then have "list_all is_tok (drop n y)"
    by (simp add: list_all_iff) (meson in_set_dropD)
  then show ?thesis
    by (cases "drop n y") (simp_all add: match_spaces_def tok_not_space)
qed

lemma tok_word_then_token: "list_all is_tok y \<Longrightarrow> word_then_token w y = None"
  by (simp add: word_then_token_def match_lit_def tok_match_spaces_drop)

lemma lower_dont_use_prompt: "lower (dont_use_prompt x) = dont_use_prompt (lower x)"
  by (simp add: dont_use_prompt_def lower_def lower_char_def)

lemma is_space_use: "is_space CHR '' ''" "\<not> is_space CHR ''u''"
  by (simp_all add: is_space_def whitespace_def)

lemma dont_use_at:
  assumes "y \<noteq> []" "list_all is_tok y"
  shows "dont_use (dont_use_prompt y) = Some (y, [])"
  using assms
  by (simp add: dont_use_def dont_use_prompt_def match_lit_def match_spaces_def
      word_then_token_def tok_dropWhile_space tok_match_token is_space_use)

lemma prefer_use_at:
  assumes "y \<noteq> []" "list_all is_tok y"
  shows "prefer_use (''use '' @ y) = Some (y, [])"
  using assms
  by (simp add: prefer_use_def match_alt_def match_lit_def match_spaces_def
      opt_word_then_token_def tok_word_then_token tok_dropWhile_space tok_match_token
      is_space_use)

lemma findall_prefer_dont_use:
  "findall_from prefer_use 0 (dont_use_prompt y) = findall_from prefer_use 0 (''use '' @ y)"
  by (simp add: dont_use_prompt_def prefer_use_def match_alt_def match_lit_def)

text \<open>
  C10, amended. For every non-empty name without whitespace, comma or period whose
  lower-cased form is not a stop-word, parsing "don't use" followed by the name puts the
  lower-cased name among the forbidden libraries and also among the preferred ones:
  the pattern for "use X" matches inside "don't use X".
\<close>

theorem dont_use_both_lists:
  assumes "x \<noteq> []" "list_all is_tok x" "lower x \<notin> set stop_words"
  shows "lower x \<in> set (parsed_libraries_forbidden (parse_explicit_constraints (dont_use_prompt x)))
       \<and> lower x \<in> set (parsed_libraries_preferred (parse_explicit_constraints (dont_use_prompt x)))"
proof -
  define y where "y = lower x"
  have y: "y \<noteq> []" "list_all is_tok y"
    using assms(1,2) by (simp_all add: y_def list_all_is_tok_lower) (simp add: lower_def)
  have "y \<in> set (findall dont_use (dont_use_prompt y))"
    using dont_use_at [OF y] by (simp add: findall_def dont_use_prompt_def)
  then have f: "y \<in> set (collect_matches avoid_patterns (dont_use_prompt y))"
    using assms(3) y(2)
    by (intro collect_member [of dont_use]) (simp_all add: avoid_patterns_def tok_strip y_def)
  have "y \<in> set (findall prefer_use (dont_use_prompt y))"
    using prefer_use_at [OF y] by (simp add: findall_def findall_prefer_dont_use)
  then have g: "y \<in> set (collect_matches prefer_patterns (dont_use_prompt y))"
    using assms(3) y(2)
    by (intro collect_member [of prefer_use]) (simp_all add: prefer_patterns_def tok_strip y_def)
  show ?thesis
    using f g
    by (simp add: parse_explicit_constraints_def Let_def lower_dont_use_prompt y_def)
qed

text \<open>The name "NumPy": "numpy" lands in both lists.\<close>

theorem dont_use_both_lists_witness:
  "''numpy'' \<in> set (parsed_libraries_forbidden (parse_explicit_constraints (dont_use_prompt ''NumPy'')))
   \<and> ''numpy'' \<in> set (parsed_libraries_preferred (parse_explicit_constraints (dont_use_prompt ''NumPy'')))"
proof -
  have l: "lower ''NumPy'' = ''numpy''" by code_simp
  have h: "''NumPy'' \<noteq> []" "list_all is_tok ''NumPy''" "lower ''NumPy'' \<notin> set stop_words"
    by (simp_all add: l stop_words_def is_tok_def is_space_def whitespace_def)
  show ?thesis using dont_use_both_lists [OF h] by (simp add: l)
qed

text \<open>
  C10, as stated, fails for a name with a capital letter: the parser lower-cases the
  prompt, so "NumPy" itself is not in the forbidden list.
\<close>

theorem dont_use_uppercase_counterexample:
  "list_all is_tok ''NumPy'' \<and> ''NumPy'' \<notin> set stop_words
   \<and> ''NumPy'' \<notin> set (parsed_libraries_forbidden
                          (parse_explicit_constraints (dont_use_prompt ''NumPy'')))"
  by code_simp

end
